theory Spec2Isabelle
  imports Complex_Main "HOL-Library.AList"
begin

section \<open>Python values, exceptions and dictionaries\<close>

text \<open>
  The authentication core of the service is modelled function by function. A Python
  function that can raise returns \<open>exn + 'a\<close> (\<open>Inl\<close> is the raised exception); a
  \<^verbatim>\<open>try/except\<close> is a case distinction on that sum. Timestamps are the values of
  \<^verbatim>\<open>datetime.timestamp()\<close>, seconds with a fractional part, taken as rationals; every
  reading of the clock is an explicit argument.
\<close>

datatype exn =
    JWTError
  | TypeError
  | ValueError
  | RuntimeError string
  | ConnectionError
  | ResponseError
  | DatabaseError
  | InvalidHash
  | VerifyMismatchError
  | HashingError
  | KeyError
  | HTTPException nat string
  | AuthenticationError string

text \<open>JSON values carried by token claims and session data.\<close>

datatype jval = JNull | JBool bool | JNum rat | JStr string

text \<open>Python truthiness of a value (\<^verbatim>\<open>if not exp\<close>).\<close>

fun truthy :: "jval \<Rightarrow> bool" where
  "truthy JNull = False"
| "truthy (JBool b) = b"
| "truthy (JNum r) = (r \<noteq> 0)"
| "truthy (JStr s) = (s \<noteq> [])"

text \<open>
  The value as a number where Python accepts it as one (\<^verbatim>\<open>bool\<close> is a subclass of
  \<^verbatim>\<open>int\<close>); \<open>None\<close> where arithmetic on it raises \<^verbatim>\<open>TypeError\<close>.
\<close>

fun as_number :: "jval \<Rightarrow> rat option" where
  "as_number (JNum r) = Some r"
| "as_number (JBool b) = Some (if b then 1 else 0)"
| "as_number JNull = None"
| "as_number (JStr s) = None"

text \<open>
  A \<^verbatim>\<open>dict\<close> with string keys is an association list in insertion order with distinct
  keys: \<^verbatim>\<open>d.get(k)\<close> is \<open>dict_get\<close>, \<^verbatim>\<open>d[k] = v\<close> is \<open>AList.update\<close> (an existing
  key keeps its place), \<^verbatim>\<open>d.update(e)\<close> stores the items of \<open>e\<close> in order.
\<close>

type_synonym claims = "(string \<times> jval) list"

definition dict_get :: "(string \<times> 'v) list \<Rightarrow> string \<Rightarrow> 'v option" where
  "dict_get d k = map_of d k"

definition dict_update :: "(string \<times> 'v) list \<Rightarrow> (string \<times> 'v) list \<Rightarrow> (string \<times> 'v) list" where
  "dict_update d e = fold (\<lambda>kv acc. AList.update (fst kv) (snd kv) acc) e d"

text \<open>Python's \<^verbatim>\<open>int(x)\<close> on a number: truncation towards zero.\<close>

definition py_int :: "rat \<Rightarrow> int" where
  "py_int r = (if 0 \<le> r then \<lfloor>r\<rfloor> else \<lceil>r\<rceil>)"

section \<open>Settings\<close>

text \<open>
  The options of \<^verbatim>\<open>app.core.config.settings\<close> that the authentication code reads.
  They are parameters of every function below.
\<close>

record settings =
  secret_key :: string
  algorithm :: string
  access_token_expire_minutes :: int
  refresh_token_expire_days :: int
  password_reset_token_expire_hours :: int
  cache_namespace :: string
  cache_ttl :: int
  redis_session_expire :: int
  feature_email_verification :: bool

section \<open>Signed tokens\<close>

text \<open>
  The JWT library (\<^verbatim>\<open>jose.jwt\<close>) is external. A token string is modelled symbolically:
  the result of \<^verbatim>\<open>jwt.encode(claims, key, algorithm)\<close> records the three arguments,
  and any other string is \<open>Garbage\<close>. \<^verbatim>\<open>jwt.decode(token, key, algorithms)\<close> returns the
  claim set of a token that was signed with the same key under an allowed algorithm and
  raises \<^verbatim>\<open>JWTError\<close> otherwise. The library's own expiry check is not modelled apart:
  it rejects only tokens that the comparison in \<open>verify_token\<close> rejects as well.
\<close>

datatype token = Signed string string claims | Garbage string

definition jwt_encode :: "claims \<Rightarrow> string \<Rightarrow> string \<Rightarrow> token" where
  "jwt_encode to_encode key alg = Signed key alg to_encode"

fun jwt_decode :: "token \<Rightarrow> string \<Rightarrow> string list \<Rightarrow> exn + claims" where
  "jwt_decode (Signed k a c) key algorithms =
     (if k = key \<and> a \<in> set algorithms then Inr c else Inl JWTError)"
| "jwt_decode (Garbage s) key algorithms = Inl JWTError"

section \<open>Token manager\<close>

text \<open>
  \<^verbatim>\<open>if expires_delta:\<close> is false for \<^verbatim>\<open>None\<close> and for a zero \<^verbatim>\<open>timedelta\<close>; the delta is
  in seconds. \<open>t_exp\<close> and \<open>t_iat\<close> are the two readings of the clock.
\<close>

definition expiry :: "rat option \<Rightarrow> rat \<Rightarrow> rat \<Rightarrow> rat" where
  "expiry expires_delta t_exp dflt =
     (case expires_delta of
        None \<Rightarrow> t_exp + dflt
      | Some d \<Rightarrow> if d \<noteq> 0 then t_exp + d else t_exp + dflt)"

definition create_access_token :: "settings \<Rightarrow> claims \<Rightarrow> rat option \<Rightarrow> rat \<Rightarrow> rat \<Rightarrow> token" where
  "create_access_token s data expires_delta t_exp t_iat =
     (let to_encode = data;
          expire = expiry expires_delta t_exp (of_int (access_token_expire_minutes s) * 60);
          to_encode = dict_update to_encode
             [(''exp'', JNum expire), (''iat'', JNum t_iat), (''type'', JStr ''access'')]
      in jwt_encode to_encode (secret_key s) (algorithm s))"

definition create_refresh_token :: "settings \<Rightarrow> claims \<Rightarrow> rat option \<Rightarrow> rat \<Rightarrow> rat \<Rightarrow> token" where
  "create_refresh_token s data expires_delta t_exp t_iat =
     (let to_encode = data;
          expire = expiry expires_delta t_exp (of_int (refresh_token_expire_days s) * 86400);
          to_encode = dict_update to_encode
             [(''exp'', JNum expire), (''iat'', JNum t_iat), (''type'', JStr ''refresh'')]
      in jwt_encode to_encode (secret_key s) (algorithm s))"

definition create_password_reset_token :: "settings \<Rightarrow> string \<Rightarrow> rat option \<Rightarrow> rat \<Rightarrow> rat \<Rightarrow> token" where
  "create_password_reset_token s email expires_delta t_exp t_iat =
     (let expire = expiry expires_delta t_exp (of_int (password_reset_token_expire_hours s) * 3600);
          to_encode = [(''email'', JStr email), (''exp'', JNum expire), (''iat'', JNum t_iat),
                       (''type'', JStr ''password_reset'')]
      in jwt_encode to_encode (secret_key s) (algorithm s))"

text \<open>
  \<open>verify_token\<close>: \<^verbatim>\<open>JWTError\<close> is caught and gives \<^verbatim>\<open>None\<close>; a missing (or null)
  \<^verbatim>\<open>exp\<close> gives \<^verbatim>\<open>None\<close>; an \<^verbatim>\<open>exp\<close> that is not a number makes
  \<^verbatim>\<open>datetime.fromtimestamp\<close> raise \<^verbatim>\<open>TypeError\<close>, which is not caught here.
\<close>

definition verify_token :: "settings \<Rightarrow> rat \<Rightarrow> token \<Rightarrow> exn + claims option" where
  "verify_token s now tok =
     (case jwt_decode tok (secret_key s) [algorithm s] of
        Inl e \<Rightarrow> if e = JWTError then Inr None else Inl e
      | Inr payload \<Rightarrow>
          (case dict_get payload ''exp'' of
             None \<Rightarrow> Inr None
           | Some JNull \<Rightarrow> Inr None
           | Some ev \<Rightarrow>
               (case as_number ev of
                  None \<Rightarrow> Inl TypeError
                | Some e \<Rightarrow> if e < now then Inr None else Inr (Some payload))))"

section \<open>Key-value store\<close>

text \<open>
  The Redis server behind \<^verbatim>\<open>redis_manager.redis_client\<close>. A key is a string; the key
  \<^verbatim>\<open>f"blacklist:token:{token}"\<close> is the prefix together with the raw token. The server
  holds string values and sorted sets (member and score, members distinct), and the
  time-to-live given to a key. When the server is not \<open>reachable\<close> every command raises.
  The model records the time-to-live of a key and does not age it.
\<close>

datatype rkey = Key string | TokenKey string token

type_synonym zset = "(int \<times> int) list"

record redis =
  reachable :: bool
  strings :: "rkey \<rightharpoonup> string"
  zsets :: "rkey \<rightharpoonup> zset"
  ttl :: "rkey \<rightharpoonup> int"

record redis_manager =
  redis_client :: "redis option"

definition redis_exists :: "redis \<Rightarrow> rkey \<Rightarrow> exn + bool" where
  "redis_exists r k =
     (if reachable r then Inr (strings r k \<noteq> None \<or> zsets r k \<noteq> None)
      else Inl ConnectionError)"

text \<open>\<^verbatim>\<open>SET key value EX seconds\<close>: a time-to-live that is not positive is an error.\<close>

definition redis_set :: "redis \<Rightarrow> rkey \<Rightarrow> string \<Rightarrow> int \<Rightarrow> exn + (bool \<times> redis)" where
  "redis_set r k v ex =
     (if \<not> reachable r then Inl ConnectionError
      else if ex \<le> 0 then Inl ResponseError
      else Inr (True, r\<lparr>strings := (strings r)(k \<mapsto> v), zsets := (zsets r)(k := None),
                         ttl := (ttl r)(k \<mapsto> ex)\<rparr>))"

text \<open>
  \<open>RedisManager.exists\<close> and \<open>RedisManager.set\<close>: without a client the answer is
  \<^verbatim>\<open>False\<close>, and every exception of the client is caught and answered \<^verbatim>\<open>False\<close>.
\<close>

definition exists_key :: "redis_manager \<Rightarrow> rkey \<Rightarrow> exn + bool" where
  "exists_key rm k =
     (case redis_client rm of
        None \<Rightarrow> Inr False
      | Some r \<Rightarrow> (case redis_exists r k of Inr b \<Rightarrow> Inr b | Inl e \<Rightarrow> Inr False))"

definition set_key :: "settings \<Rightarrow> redis_manager \<Rightarrow> rkey \<Rightarrow> string \<Rightarrow> int option
    \<Rightarrow> exn + (bool \<times> redis_manager)" where
  "set_key s rm k v expire =
     (case redis_client rm of
        None \<Rightarrow> Inr (False, rm)
      | Some r \<Rightarrow>
          (let ex = (case expire of None \<Rightarrow> cache_ttl s
                     | Some e \<Rightarrow> if e \<noteq> 0 then e else cache_ttl s)
           in case redis_set r k v ex of
                Inr (b, r') \<Rightarrow> Inr (b, rm\<lparr>redis_client := Some r'\<rparr>)
              | Inl e \<Rightarrow> Inr (False, rm)))"

subsection \<open>Revocation\<close>

definition blacklist_key :: "token \<Rightarrow> rkey" where
  "blacklist_key tok = TokenKey ''blacklist:token:'' tok"

text \<open>
  \<open>revoke_token\<close>: \<open>now_v\<close> is the clock read inside \<open>verify_token\<close>, \<open>now_r\<close> the
  clock read for the remaining lifetime. The whole body is inside \<^verbatim>\<open>try/except Exception\<close>,
  which answers \<^verbatim>\<open>False\<close>.
\<close>

definition revoke_token_body :: "settings \<Rightarrow> redis_manager \<Rightarrow> rat \<Rightarrow> rat \<Rightarrow> token
    \<Rightarrow> exn + (bool \<times> redis_manager)" where
  "revoke_token_body s rm now_v now_r tok =
     (case verify_token s now_v tok of
        Inl e \<Rightarrow> Inl e
      | Inr None \<Rightarrow> Inr (False, rm)
      | Inr (Some payload) \<Rightarrow>
          if payload = [] then Inr (False, rm)
          else (case dict_get payload ''exp'' of
                  None \<Rightarrow> Inr (False, rm)
                | Some ev \<Rightarrow>
                    if \<not> truthy ev then Inr (False, rm)
                    else (case as_number ev of
                            None \<Rightarrow> Inl TypeError
                          | Some e \<Rightarrow>
                              (let ttl = py_int (e - now_r)
                               in if ttl \<le> 0 then Inr (True, rm)
                                  else set_key s rm (blacklist_key tok) ''revoked'' (Some ttl)))))"

definition revoke_token :: "settings \<Rightarrow> redis_manager \<Rightarrow> rat \<Rightarrow> rat \<Rightarrow> token
    \<Rightarrow> bool \<times> redis_manager" where
  "revoke_token s rm now_v now_r tok =
     (case revoke_token_body s rm now_v now_r tok of
        Inr res \<Rightarrow> res
      | Inl e \<Rightarrow> (False, rm))"

definition is_token_revoked :: "redis_manager \<Rightarrow> token \<Rightarrow> bool" where
  "is_token_revoked rm tok =
     (case exists_key rm (blacklist_key tok) of
        Inr b \<Rightarrow> b
      | Inl e \<Rightarrow> False)"

definition verify_token_not_revoked :: "redis_manager \<Rightarrow> token \<Rightarrow> exn + unit" where
  "verify_token_not_revoked rm tok =
     (if is_token_revoked rm tok then Inl (AuthenticationError ''Token has been revoked'')
      else Inr ())"

subsection \<open>The authenticated HTTP dependency\<close>

text \<open>
  \<open>get_current_user_token\<close>: an \<^verbatim>\<open>AuthenticationError\<close> becomes a 401 whose detail is
  \<^verbatim>\<open>str(e)\<close> (the rendering \<open>exc_str\<close> of the framework's exception), any other
  exception a 401 with the generic detail.
\<close>

definition get_current_user_token_body :: "settings \<Rightarrow> redis_manager \<Rightarrow> rat \<Rightarrow> token
    \<Rightarrow> exn + claims" where
  "get_current_user_token_body s rm now tok =
     (case verify_token_not_revoked rm tok of
        Inl e \<Rightarrow> Inl e
      | Inr u \<Rightarrow>
          (case verify_token s now tok of
             Inl e \<Rightarrow> Inl e
           | Inr None \<Rightarrow> Inl (AuthenticationError ''Invalid token'')
           | Inr (Some payload) \<Rightarrow>
               if dict_get payload ''type'' \<noteq> Some (JStr ''access'')
               then Inl (AuthenticationError ''Invalid token type'')
               else Inr payload))"

definition get_current_user_token :: "(exn \<Rightarrow> string) \<Rightarrow> settings \<Rightarrow> redis_manager \<Rightarrow> rat
    \<Rightarrow> token \<Rightarrow> exn + claims" where
  "get_current_user_token exc_str s rm now tok =
     (case get_current_user_token_body s rm now tok of
        Inr payload \<Rightarrow> Inr payload
      | Inl (AuthenticationError d) \<Rightarrow> Inl (HTTPException 401 (exc_str (AuthenticationError d)))
      | Inl e \<Rightarrow> Inl (HTTPException 401 ''Could not validate credentials''))"

section \<open>Rate limiter\<close>

text \<open>
  The sorted-set commands that the Lua script of \<open>rate_limit\<close> calls. A sorted set that
  becomes empty is removed with its key. \<^verbatim>\<open>ZADD key score member\<close> adds the member or,
  when the member is already in the set, only replaces its score. \<^verbatim>\<open>EXPIRE\<close> with a
  time that is not positive deletes the key.
\<close>

definition zremrangebyscore :: "redis \<Rightarrow> rkey \<Rightarrow> int \<Rightarrow> int \<Rightarrow> redis" where
  "zremrangebyscore r k lo hi =
     (case zsets r k of
        None \<Rightarrow> r
      | Some z \<Rightarrow>
          (let z' = filter (\<lambda>ms. \<not> (lo \<le> snd ms \<and> snd ms \<le> hi)) z
           in if z' = [] then r\<lparr>zsets := (zsets r)(k := None), ttl := (ttl r)(k := None)\<rparr>
              else r\<lparr>zsets := (zsets r)(k \<mapsto> z')\<rparr>))"

definition zcard :: "redis \<Rightarrow> rkey \<Rightarrow> int" where
  "zcard r k = (case zsets r k of None \<Rightarrow> 0 | Some z \<Rightarrow> int (length z))"

definition zadd :: "redis \<Rightarrow> rkey \<Rightarrow> int \<Rightarrow> int \<Rightarrow> redis" where
  "zadd r k score member =
     r\<lparr>zsets := (zsets r)(k \<mapsto>
          AList.update member score (case zsets r k of None \<Rightarrow> [] | Some z \<Rightarrow> z))\<rparr>"

definition expire_key :: "redis \<Rightarrow> rkey \<Rightarrow> int \<Rightarrow> redis" where
  "expire_key r k seconds =
     (if strings r k = None \<and> zsets r k = None then r
      else if seconds \<le> 0
        then r\<lparr>strings := (strings r)(k := None), zsets := (zsets r)(k := None),
               ttl := (ttl r)(k := None)\<rparr>
        else r\<lparr>ttl := (ttl r)(k \<mapsto> seconds)\<rparr>)"

text \<open>
  The Lua script, run atomically by \<^verbatim>\<open>EVAL\<close> with the key and the arguments window,
  limit and now. It raises when the server is unreachable or the key holds a string.
\<close>

definition rate_limit_script :: "redis \<Rightarrow> rkey \<Rightarrow> int \<Rightarrow> int \<Rightarrow> int
    \<Rightarrow> exn + ((int \<times> int \<times> int) \<times> redis)" where
  "rate_limit_script r k window limit now =
     (if \<not> reachable r then Inl ConnectionError
      else if strings r k \<noteq> None then Inl ResponseError
      else
        (let r1 = zremrangebyscore r k 0 (now - window);
             current = zcard r1 k
         in if current < limit
            then (let r2 = zadd r1 k now now;
                      r3 = expire_key r2 k window
                  in Inr ((1, limit - current - 1, now + window), r3))
            else Inr ((0, 0, now + window), r1)))"

text \<open>
  \<open>rate_limit\<close>: \<open>now\<close> is \<^verbatim>\<open>int(time.time())\<close>, the clock in whole seconds. Without a
  client and on every exception the request is allowed.
\<close>

definition rate_limit :: "settings \<Rightarrow> redis_manager \<Rightarrow> int \<Rightarrow> string \<Rightarrow> int \<Rightarrow> int \<Rightarrow> string
    \<Rightarrow> (bool \<times> int \<times> int) \<times> redis_manager" where
  "rate_limit s rm now key limit window identifier =
     (case redis_client rm of
        None \<Rightarrow> ((True, limit, 0), rm)
      | Some r \<Rightarrow>
          (let rate_key = Key (cache_namespace s @ '':rate_limit:'' @ key @ '':'' @ identifier)
           in case rate_limit_script r rate_key window limit now of
                Inr ((a, remaining, reset), r') \<Rightarrow>
                  ((a \<noteq> 0, remaining, reset), rm\<lparr>redis_client := Some r'\<rparr>)
              | Inl e \<Rightarrow> ((True, limit, 0), rm)))"

text \<open>
  Requests of one identifier issued one after the other, at the given readings of the
  clock: the list of the \<^verbatim>\<open>allowed\<close> answers.
\<close>

fun requests :: "settings \<Rightarrow> redis_manager \<Rightarrow> string \<Rightarrow> int \<Rightarrow> int \<Rightarrow> string \<Rightarrow> int list
    \<Rightarrow> bool list" where
  "requests s rm key limit window identifier [] = []"
| "requests s rm key limit window identifier (now # later) =
     (case rate_limit s rm now key limit window identifier of
        ((allowed, remaining, reset), rm') \<Rightarrow>
          allowed # requests s rm' key limit window identifier later)"

section \<open>Token pairs\<close>

text \<open>\<^verbatim>\<open>str(user_id)\<close>: the decimal rendering of an integer.\<close>

fun str_nat :: "nat \<Rightarrow> string" where
  "str_nat n =
     (if n < 10 then [''0123456789'' ! n]
      else str_nat (n div 10) @ [''0123456789'' ! (n mod 10)])"

declare str_nat.simps [simp del]

definition str_int :: "int \<Rightarrow> string" where
  "str_int i = (if i < 0 then CHR ''-'' # str_nat (nat (- i)) else str_nat (nat i))"

record token_pair =
  access_token :: token
  refresh_token :: token
  token_type :: string
  expires_in :: int

text \<open>
  \<open>create_token_pair\<close>: \<^verbatim>\<open>if additional_data:\<close> is false for \<^verbatim>\<open>None\<close> and for the empty
  dictionary. \<open>t1\<close> to \<open>t4\<close> are the readings of the clock, in the order of the calls.
\<close>

definition create_token_pair :: "settings \<Rightarrow> int \<Rightarrow> claims option \<Rightarrow> rat \<Rightarrow> rat \<Rightarrow> rat \<Rightarrow> rat
    \<Rightarrow> token_pair" where
  "create_token_pair s user_id additional_data t1 t2 t3 t4 =
     (let data = [(''sub'', JStr (str_int user_id))];
          data = (case additional_data of
                    None \<Rightarrow> data
                  | Some ad \<Rightarrow> if ad \<noteq> [] then dict_update data ad else data);
          access = create_access_token s data None t1 t2;
          refresh = create_refresh_token s
                      [(''sub'', JStr (str_int user_id)), (''type'', JStr ''refresh'')] None t3 t4
      in \<lparr>access_token = access, refresh_token = refresh, token_type = ''bearer'',
          expires_in = access_token_expire_minutes s * 60\<rparr>)"

section \<open>Users and the relational store\<close>

record user =
  user_id :: int
  email :: string
  username :: string
  hashed_password :: "string option"
  is_active :: bool
  is_superuser :: bool
  email_verified :: bool
  updated_at :: rat
  last_login_at :: "rat option"

text \<open>
  The table of users behind the database session. A query raises when the database is
  not \<open>available\<close>, and \<^verbatim>\<open>scalar_one_or_none\<close> raises when more than one row matches.
\<close>

record database =
  available :: bool
  users :: "user list"

definition scalar_one_or_none :: "database \<Rightarrow> (user \<Rightarrow> bool) \<Rightarrow> exn + user option" where
  "scalar_one_or_none db p =
     (if \<not> available db then Inl DatabaseError
      else (case filter p (users db) of
              [] \<Rightarrow> Inr None
            | [u] \<Rightarrow> Inr (Some u)
            | u # v # rest \<Rightarrow> Inl DatabaseError))"

definition get_user :: "database \<Rightarrow> int \<Rightarrow> exn + user option" where
  "get_user db i = scalar_one_or_none db (\<lambda>u. user_id u = i)"

definition get_by_email :: "database \<Rightarrow> string \<Rightarrow> exn + user option" where
  "get_by_email db e = scalar_one_or_none db (\<lambda>u. email u = e)"

definition get_by_username :: "database \<Rightarrow> string \<Rightarrow> exn + user option" where
  "get_by_username db n = scalar_one_or_none db (\<lambda>u. username u = n)"

text \<open>
  \<^verbatim>\<open>user.update(db, last_login_at=user.updated_at)\<close>: the row is written and read back;
  \<open>now\<close> is the database's clock, which stamps \<^verbatim>\<open>updated_at\<close>.
\<close>

definition update_last_login :: "database \<Rightarrow> rat \<Rightarrow> user \<Rightarrow> exn + (user \<times> database)" where
  "update_last_login db now u =
     (if \<not> available db then Inl DatabaseError
      else (let u' = u\<lparr>last_login_at := Some (updated_at u), updated_at := now\<rparr>
            in Inr (u', db\<lparr>users := map (\<lambda>v. if user_id v = user_id u then u' else v) (users db)\<rparr>)))"

text \<open>
  \<^verbatim>\<open>int(x)\<close> on a claim value. The conversion of a string is the parameter \<open>parse\<close>
  (\<open>None\<close> where Python raises \<^verbatim>\<open>ValueError\<close>).
\<close>

definition int_of :: "(string \<Rightarrow> int option) \<Rightarrow> jval option \<Rightarrow> exn + int" where
  "int_of parse v =
     (case v of
        None \<Rightarrow> Inl TypeError
      | Some JNull \<Rightarrow> Inl TypeError
      | Some (JBool b) \<Rightarrow> Inr (if b then 1 else 0)
      | Some (JNum r) \<Rightarrow> Inr (py_int r)
      | Some (JStr s) \<Rightarrow> (case parse s of None \<Rightarrow> Inl ValueError | Some i \<Rightarrow> Inr i))"

definition identity_claims :: "user \<Rightarrow> claims" where
  "identity_claims u =
     [(''email'', JStr (email u)), (''username'', JStr (username u)),
      (''is_superuser'', JBool (is_superuser u))]"

section \<open>Refresh flow\<close>

text \<open>
  The endpoint \<open>refresh_token\<close>. \<^verbatim>\<open>if not payload\<close> holds for \<^verbatim>\<open>None\<close> and for an empty
  claim set. An \<^verbatim>\<open>HTTPException\<close> is raised again; every other exception becomes a 401.
\<close>

definition refresh_token_body :: "(string \<Rightarrow> int option) \<Rightarrow> settings \<Rightarrow> database \<Rightarrow> rat
    \<Rightarrow> rat \<Rightarrow> rat \<Rightarrow> rat \<Rightarrow> rat \<Rightarrow> token \<Rightarrow> exn + token_pair" where
  "refresh_token_body parse s db now t1 t2 t3 t4 tok =
     (case verify_token s now tok of
        Inl e \<Rightarrow> Inl e
      | Inr None \<Rightarrow> Inl (HTTPException 401 ''Invalid refresh token'')
      | Inr (Some payload) \<Rightarrow>
          if payload = [] then Inl (HTTPException 401 ''Invalid refresh token'')
          else if dict_get payload ''type'' \<noteq> Some (JStr ''refresh'')
            then Inl (HTTPException 401 ''Invalid token type'')
          else (case int_of parse (dict_get payload ''sub'') of
                  Inl e \<Rightarrow> Inl e
                | Inr i \<Rightarrow>
                    (case get_user db i of
                       Inl e \<Rightarrow> Inl e
                     | Inr None \<Rightarrow> Inl (HTTPException 401 ''User not found or inactive'')
                     | Inr (Some u) \<Rightarrow>
                         if \<not> is_active u
                         then Inl (HTTPException 401 ''User not found or inactive'')
                         else Inr (create_token_pair s (user_id u)
                                     (Some (identity_claims u)) t1 t2 t3 t4))))"

fun is_http_exception :: "exn \<Rightarrow> bool" where
  "is_http_exception (HTTPException c d) = True"
| "is_http_exception (AuthenticationError d) = True"
| "is_http_exception e = False"

definition refresh_token_endpoint :: "(string \<Rightarrow> int option) \<Rightarrow> settings \<Rightarrow> database \<Rightarrow> rat
    \<Rightarrow> rat \<Rightarrow> rat \<Rightarrow> rat \<Rightarrow> rat \<Rightarrow> token \<Rightarrow> exn + token_pair" where
  "refresh_token_endpoint parse s db now t1 t2 t3 t4 tok =
     (case refresh_token_body parse s db now t1 t2 t3 t4 tok of
        Inr pair \<Rightarrow> Inr pair
      | Inl e \<Rightarrow> if is_http_exception e then Inl e
                 else Inl (HTTPException 401 ''Token refresh failed''))"

section \<open>WebSocket authentication\<close>

record mock_user =
  mock_id :: int
  mock_email :: jval
  mock_username :: jval
  mock_is_active :: bool

datatype ws_auth = Closed nat string | Authenticated mock_user

text \<open>A token string is false in a condition when it is absent or empty.\<close>

fun token_given :: "token option \<Rightarrow> bool" where
  "token_given None = False"
| "token_given (Some (Garbage s)) = (s \<noteq> [])"
| "token_given (Some (Signed k a c)) = True"

definition authenticate_websocket_body :: "(string \<Rightarrow> int option) \<Rightarrow> settings \<Rightarrow> rat \<Rightarrow> token
    \<Rightarrow> exn + ws_auth" where
  "authenticate_websocket_body parse s now tok =
     (case verify_token s now tok of
        Inl e \<Rightarrow> Inl e
      | Inr None \<Rightarrow> Inr (Closed 1008 ''Invalid token'')
      | Inr (Some payload) \<Rightarrow>
          if payload = [] then Inr (Closed 1008 ''Invalid token'')
          else if dict_get payload ''type'' \<noteq> Some (JStr ''access'')
            then Inr (Closed 1008 ''Invalid token type'')
          else (case int_of parse (dict_get payload ''sub'') of
                  Inl e \<Rightarrow> Inl e
                | Inr i \<Rightarrow>
                    Inr (Authenticated
                      \<lparr>mock_id = i,
                       mock_email = (case dict_get payload ''email'' of
                                       None \<Rightarrow> JStr [] | Some v \<Rightarrow> v),
                       mock_username = (case dict_get payload ''username'' of
                                          None \<Rightarrow> JStr [] | Some v \<Rightarrow> v),
                       mock_is_active = True\<rparr>)))"

text \<open>
  \<open>authenticate_websocket\<close>: \<open>token\<close> is the argument, \<open>query_token\<close> the query
  parameter \<^verbatim>\<open>token\<close> of the connection. \<open>Closed\<close> is the close frame sent before
  \<^verbatim>\<open>None\<close> is returned.
\<close>

definition authenticate_websocket :: "(string \<Rightarrow> int option) \<Rightarrow> settings \<Rightarrow> rat
    \<Rightarrow> token option \<Rightarrow> token option \<Rightarrow> ws_auth" where
  "authenticate_websocket parse s now token query_token =
     (case (if \<not> token_given token then query_token else token) of
        None \<Rightarrow> Closed 1008 ''Authentication required''
      | Some tok \<Rightarrow>
          if \<not> token_given (Some tok) then Closed 1008 ''Authentication required''
          else (case authenticate_websocket_body parse s now tok of
                  Inr r \<Rightarrow> r
                | Inl e \<Rightarrow> Closed 1011 ''Authentication failed''))"

section \<open>Password engine\<close>

text \<open>
  The Argon2 hasher is external: \<^verbatim>\<open>hasher.verify(hash, password)\<close> returns when the
  password matches and raises otherwise (\<^verbatim>\<open>VerifyMismatchError\<close> on a mismatch, other
  exceptions for a stored value that is no hash, or an internal failure). It is a
  parameter. \<open>verify_password\<close> has three handlers, and each of them returns \<^verbatim>\<open>False\<close>.
\<close>

type_synonym hasher = "string option \<Rightarrow> string \<Rightarrow> exn + unit"

definition verify_password :: "hasher \<Rightarrow> string \<Rightarrow> string option \<Rightarrow> exn + bool" where
  "verify_password h plain hashed =
     (case h hashed plain of
        Inr u \<Rightarrow> Inr True
      | Inl e \<Rightarrow>
          if e = VerifyMismatchError then Inr False
          else if e = HashingError then Inr False
          else Inr False)"

text \<open>
  What the same call writes with \<^verbatim>\<open>logger.error\<close>: a line is its fixed text and the
  exception that \<^verbatim>\<open>{e}\<close> renders. The handler of a mismatch logs nothing, the handler of
  \<^verbatim>\<open>HashingError\<close> and the handler of every other exception log one line each.
\<close>

datatype log_line = LogError string exn

definition verify_password_log :: "hasher \<Rightarrow> string \<Rightarrow> string option \<Rightarrow> log_line list" where
  "verify_password_log h plain hashed =
     (case h hashed plain of
        Inr u \<Rightarrow> []
      | Inl e \<Rightarrow>
          if e = VerifyMismatchError then []
          else if e = HashingError then [LogError ''Password verification error: '' e]
          else [LogError ''Unexpected password verification error: '' e])"

section \<open>Sessions\<close>

text \<open>
  \<open>set_json\<close> stores \<^verbatim>\<open>json.dumps(value, default=str)\<close>; the serialiser is the parameter
  \<open>dumps\<close>. \<open>create_session\<close>: \<open>sid\<close> is the value of \<^verbatim>\<open>secrets.token_urlsafe(32)\<close>,
  and \<^verbatim>\<open>created_at\<close> is the instant \<open>now\<close>.
\<close>

definition set_json :: "(claims \<Rightarrow> string) \<Rightarrow> settings \<Rightarrow> redis_manager \<Rightarrow> rkey \<Rightarrow> claims
    \<Rightarrow> int option \<Rightarrow> exn + (bool \<times> redis_manager)" where
  "set_json dumps s rm k v expire = set_key s rm k (dumps v) expire"

definition create_session :: "(claims \<Rightarrow> string) \<Rightarrow> settings \<Rightarrow> redis_manager \<Rightarrow> string \<Rightarrow> rat
    \<Rightarrow> int \<Rightarrow> claims \<Rightarrow> rat option \<Rightarrow> exn + (string \<times> redis_manager)" where
  "create_session dumps s rm sid now uid data expires_delta =
     (let session_key = Key ((cache_namespace s @ '':session'') @ '':'' @ sid);
          session_data = dict_update
             [(''user_id'', JNum (of_int uid)), (''created_at'', JNum now)] data;
          expire_seconds = (case expires_delta of
                              None \<Rightarrow> redis_session_expire s
                            | Some d \<Rightarrow> if d \<noteq> 0 then py_int d else redis_session_expire s)
      in case set_json dumps s rm session_key session_data (Some expire_seconds) of
           Inl e \<Rightarrow> Inl e
         | Inr (success, rm') \<Rightarrow>
             if success then Inr (sid, rm')
             else Inl (RuntimeError ''Failed to create session''))"

section \<open>Login\<close>

record login_request =
  login_email :: string
  login_password :: string

record login_response =
  response_user :: user
  response_tokens :: token_pair
  response_session_id :: string

text \<open>
  The endpoint \<open>login\<close>. The user is looked up by email and, when there is none, by
  username. An \<^verbatim>\<open>HTTPException\<close> is raised again; every other exception becomes a 500.
\<close>

definition login_body :: "hasher \<Rightarrow> (claims \<Rightarrow> string) \<Rightarrow> settings \<Rightarrow> database \<Rightarrow> redis_manager
    \<Rightarrow> string \<Rightarrow> rat \<Rightarrow> rat \<Rightarrow> rat \<Rightarrow> rat \<Rightarrow> rat \<Rightarrow> login_request
    \<Rightarrow> (exn + login_response) \<times> database \<times> redis_manager" where
  "login_body h dumps s db rm sid now t1 t2 t3 t4 request =
     (case get_by_email db (login_email request) of
        Inl e \<Rightarrow> (Inl e, db, rm)
      | Inr by_email \<Rightarrow>
          (case (if by_email = None then get_by_username db (login_email request)
                 else Inr by_email) of
             Inl e \<Rightarrow> (Inl e, db, rm)
           | Inr None \<Rightarrow> (Inl (HTTPException 401 ''Invalid credentials''), db, rm)
           | Inr (Some u) \<Rightarrow>
               (case verify_password h (login_password request) (hashed_password u) of
                  Inl e \<Rightarrow> (Inl e, db, rm)
                | Inr ok \<Rightarrow>
                    if \<not> ok then (Inl (HTTPException 401 ''Invalid credentials''), db, rm)
                    else if \<not> is_active u
                      then (Inl (HTTPException 401 ''Account is deactivated''), db, rm)
                    else if feature_email_verification s \<and> \<not> email_verified u
                      then (Inl (HTTPException 401 ''Email not verified''), db, rm)
                    else
                      (case update_last_login db now u of
                         Inl e \<Rightarrow> (Inl e, db, rm)
                       | Inr (u', db') \<Rightarrow>
                           (let tokens = create_token_pair s (user_id u')
                                           (Some (identity_claims u')) t1 t2 t3 t4
                            in case create_session dumps s rm sid now (user_id u')
                                      [(''ip'', JStr ''unknown''),
                                       (''user_agent'', JStr ''unknown''),
                                       (''login_method'', JStr ''password'')] None of
                                 Inl e \<Rightarrow> (Inl e, db', rm)
                               | Inr (session_id, rm') \<Rightarrow>
                                   (Inr \<lparr>response_user = u', response_tokens = tokens,
                                         response_session_id = session_id\<rparr>, db', rm'))))))"

definition login :: "hasher \<Rightarrow> (claims \<Rightarrow> string) \<Rightarrow> settings \<Rightarrow> database \<Rightarrow> redis_manager
    \<Rightarrow> string \<Rightarrow> rat \<Rightarrow> rat \<Rightarrow> rat \<Rightarrow> rat \<Rightarrow> rat \<Rightarrow> login_request
    \<Rightarrow> (exn + login_response) \<times> database \<times> redis_manager" where
  "login h dumps s db rm sid now t1 t2 t3 t4 request =
     (case login_body h dumps s db rm sid now t1 t2 t3 t4 request of
        (Inr response, db', rm') \<Rightarrow> (Inr response, db', rm')
      | (Inl e, db', rm') \<Rightarrow>
          if is_http_exception e then (Inl e, db', rm')
          else (Inl (HTTPException 500 ''Login failed''), db', rm'))"

section \<open>Password reset request\<close>

text \<open>
  \<open>sanitize_email\<close> is \<^verbatim>\<open>email.strip().lower()\<close>, on the whitespace and the letters of
  ASCII.
\<close>

definition is_space :: "char \<Rightarrow> bool" where
  "is_space c = (c \<in> set [CHR '' '', CHR 0x09, CHR 0x0A, CHR 0x0B, CHR 0x0C, CHR 0x0D,
                          CHR 0x1C, CHR 0x1D, CHR 0x1E, CHR 0x1F])"

definition py_strip :: "string \<Rightarrow> string" where
  "py_strip s = rev (dropWhile is_space (rev (dropWhile is_space s)))"

definition lower_char :: "char \<Rightarrow> char" where
  "lower_char c =
     (case map_of (zip ''ABCDEFGHIJKLMNOPQRSTUVWXYZ'' ''abcdefghijklmnopqrstuvwxyz'') c of
        None \<Rightarrow> c
      | Some l \<Rightarrow> l)"

definition py_lower :: "string \<Rightarrow> string" where
  "py_lower s = map lower_char s"

definition sanitize_email :: "string \<Rightarrow> string" where
  "sanitize_email e = py_lower (py_strip e)"

record http_response =
  status_code :: nat
  body :: "(string \<times> string) list"

definition reset_message :: http_response where
  "reset_message =
     \<lparr>status_code = 200,
      body = [(''message'', ''If the email exists, a password reset link has been sent'')]\<rparr>"

text \<open>
  The endpoint \<open>request_password_reset\<close>. Its result is the response together with the
  lines it logs; the reset token it creates is not used. Every exception is caught and
  answered with the same response.
\<close>

definition request_password_reset_body :: "settings \<Rightarrow> database \<Rightarrow> rat \<Rightarrow> rat \<Rightarrow> string
    \<Rightarrow> exn + (http_response \<times> string list)" where
  "request_password_reset_body s db t1 t2 request_email =
     (let e = sanitize_email request_email
      in case get_by_email db e of
           Inl x \<Rightarrow> Inl x
         | Inr None \<Rightarrow> Inr (reset_message, [])
         | Inr (Some u) \<Rightarrow>
             if is_active u
             then (let reset_token = create_password_reset_token s e None t1 t2
                   in Inr (reset_message, [''Password reset requested for: '' @ e]))
             else Inr (reset_message, []))"

definition request_password_reset :: "settings \<Rightarrow> database \<Rightarrow> rat \<Rightarrow> rat \<Rightarrow> string
    \<Rightarrow> http_response \<times> string list" where
  "request_password_reset s db t1 t2 request_email =
     (case request_password_reset_body s db t1 t2 request_email of
        Inr r \<Rightarrow> r
      | Inl x \<Rightarrow> (reset_message, [''Password reset request error'']))"

section \<open>Connection manager\<close>

text \<open>
  A WebSocket object is known by its identity. \<open>active_connections\<close> maps a user id to
  the list of its sockets, \<open>connection_metadata\<close> a socket to its metadata dictionary.
  The transport is the \<open>network\<close>: \<^verbatim>\<open>accept\<close> and \<^verbatim>\<open>send_json\<close> raise on a \<open>broken\<close>
  socket, and \<open>delivered\<close> lists the messages sent so far, in order. The clock does not
  advance during one call.
\<close>

type_synonym ws = nat

datatype mval = MInt int | MStr string | MTime rat

type_synonym message = "(string \<times> mval) list"

record connection_manager =
  active_connections :: "int \<rightharpoonup> ws list"
  connection_metadata :: "ws \<rightharpoonup> message"

record network =
  broken :: "ws \<Rightarrow> bool"
  delivered :: "(ws \<times> message) list"

type_synonym cstate = "connection_manager \<times> network"

text \<open>
  The sending loop of \<open>broadcast_to_user\<close>: the excluded socket is skipped, a socket
  whose send raises is collected, and a socket that was sent to gets a new
  \<^verbatim>\<open>last_activity\<close> when it has metadata.
\<close>

definition touch :: "connection_manager \<Rightarrow> ws \<Rightarrow> rat \<Rightarrow> connection_manager" where
  "touch m w now =
     (case connection_metadata m w of
        None \<Rightarrow> m
      | Some md \<Rightarrow>
          m\<lparr>connection_metadata :=
               (connection_metadata m)(w \<mapsto> AList.update ''last_activity'' (MTime now) md)\<rparr>)"

fun send_all :: "rat \<Rightarrow> message \<Rightarrow> ws option \<Rightarrow> ws list \<Rightarrow> cstate \<Rightarrow> cstate \<times> ws list" where
  "send_all now msg exclude [] st = (st, [])"
| "send_all now msg exclude (w # rest) st =
     (if exclude = Some w then send_all now msg exclude rest st
      else if broken (snd st) w
        then (case send_all now msg exclude rest st of
                (st', failed) \<Rightarrow> (st', w # failed))
        else send_all now msg exclude rest
               (touch (fst st) w now,
                (snd st)\<lparr>delivered := delivered (snd st) @ [(w, msg)]\<rparr>))"

text \<open>
  The clean-up loop: \<open>disc\<close> is \<open>disconnect\<close>. A result is \<open>None\<close> when the recursion
  between \<open>disconnect\<close> and \<open>broadcast_to_user\<close> was cut off, \<open>Some (Inl e)\<close> when an
  exception escapes.
\<close>

fun cleanup :: "(ws \<Rightarrow> cstate \<Rightarrow> (exn + cstate) option) \<Rightarrow> ws list \<Rightarrow> cstate
    \<Rightarrow> (exn + cstate) option" where
  "cleanup disc [] st = Some (Inr st)"
| "cleanup disc (w # rest) st =
     (case disc w st of
        None \<Rightarrow> None
      | Some (Inl e) \<Rightarrow> Some (Inl e)
      | Some (Inr st') \<Rightarrow> cleanup disc rest st')"

definition broadcast_with :: "(ws \<Rightarrow> cstate \<Rightarrow> (exn + cstate) option) \<Rightarrow> rat \<Rightarrow> int \<Rightarrow> message
    \<Rightarrow> ws option \<Rightarrow> cstate \<Rightarrow> (exn + cstate) option" where
  "broadcast_with disc now uid msg exclude st =
     (case active_connections (fst st) uid of
        None \<Rightarrow> Some (Inr st)
      | Some conns \<Rightarrow>
          (case send_all now msg exclude conns st of
             (st', connections_to_remove) \<Rightarrow> cleanup disc connections_to_remove st'))"

definition remove_connection :: "connection_manager \<Rightarrow> mval \<Rightarrow> ws \<Rightarrow> connection_manager" where
  "remove_connection m uv w =
     (case uv of
        MInt u \<Rightarrow>
          (case active_connections m u of
             None \<Rightarrow> m
           | Some conns \<Rightarrow>
               (let remaining = filter (\<lambda>c. c \<noteq> w) conns
                in if remaining = []
                   then m\<lparr>active_connections := (active_connections m)(u := None)\<rparr>
                   else m\<lparr>active_connections := (active_connections m)(u \<mapsto> remaining)\<rparr>))
      | MStr x \<Rightarrow> m
      | MTime x \<Rightarrow> m)"

definition closed_message :: "mval \<Rightarrow> rat \<Rightarrow> message" where
  "closed_message uv now =
     [(''type'', MStr ''connection_closed''), (''user_id'', uv), (''timestamp'', MTime now)]"

definition established_message :: "int \<Rightarrow> rat \<Rightarrow> message" where
  "established_message uid now =
     [(''type'', MStr ''connection_established''), (''user_id'', MInt uid),
      (''timestamp'', MTime now)]"

text \<open>
  \<open>disconnect\<close>; the first argument bounds the depth of the recursion through
  \<open>broadcast_to_user\<close>. A socket without metadata is left alone.
\<close>

primrec disconnect :: "nat \<Rightarrow> rat \<Rightarrow> ws \<Rightarrow> cstate \<Rightarrow> (exn + cstate) option" where
  "disconnect 0 = (\<lambda>now w st. None)"
| "disconnect (Suc n) = (\<lambda>now w st.
     (case connection_metadata (fst st) w of
        None \<Rightarrow> Some (Inr st)
      | Some md \<Rightarrow>
          if md = [] then Some (Inr st)
          else (case dict_get md ''user_id'' of
                  None \<Rightarrow> Some (Inl KeyError)
                | Some uv \<Rightarrow>
                    (let m1 = remove_connection (fst st) uv w;
                         m2 = m1\<lparr>connection_metadata := (connection_metadata m1)(w := None)\<rparr>
                     in case uv of
                          MInt u \<Rightarrow>
                            if active_connections m2 u \<noteq> None
                            then broadcast_with (disconnect n now) now u
                                   (closed_message uv now) None (m2, snd st)
                            else Some (Inr (m2, snd st))
                        | MStr x \<Rightarrow> Some (Inr (m2, snd st))
                        | MTime x \<Rightarrow> Some (Inr (m2, snd st))))))"

definition broadcast_to_user :: "nat \<Rightarrow> rat \<Rightarrow> int \<Rightarrow> message \<Rightarrow> ws option \<Rightarrow> cstate
    \<Rightarrow> (exn + cstate) option" where
  "broadcast_to_user n now uid msg exclude st =
     broadcast_with (disconnect n now) now uid msg exclude st"

text \<open>
  \<open>connect\<close>: the keys of the caller's metadata are stored after the three fixed keys
  and replace them where they coincide.
\<close>

definition metadata_or_empty :: "message option \<Rightarrow> message" where
  "metadata_or_empty metadata = (case metadata of None \<Rightarrow> [] | Some d \<Rightarrow> d)"

definition fresh_metadata :: "int \<Rightarrow> rat \<Rightarrow> message option \<Rightarrow> message" where
  "fresh_metadata uid now metadata =
     dict_update [(''user_id'', MInt uid), (''connected_at'', MTime now),
                  (''last_activity'', MTime now)] (metadata_or_empty metadata)"

definition connect :: "nat \<Rightarrow> rat \<Rightarrow> ws \<Rightarrow> int \<Rightarrow> message option \<Rightarrow> cstate
    \<Rightarrow> (exn + cstate) option" where
  "connect n now w uid metadata st =
     (if broken (snd st) w then Some (Inl ConnectionError)
      else
        (let m = fst st;
             conns = (case active_connections m uid of None \<Rightarrow> [] | Some c \<Rightarrow> c);
             m1 = m\<lparr>active_connections := (active_connections m)(uid \<mapsto> conns @ [w])\<rparr>;
             md = fresh_metadata uid now metadata;
             m2 = m1\<lparr>connection_metadata := (connection_metadata m1)(w \<mapsto> md)\<rparr>
         in broadcast_to_user n now uid (established_message uid now) (Some w) (m2, snd st)))"

definition get_user_connection_count :: "connection_manager \<Rightarrow> int \<Rightarrow> nat" where
  "get_user_connection_count m uid =
     length (case active_connections m uid of None \<Rightarrow> [] | Some c \<Rightarrow> c)"

section \<open>Example configuration\<close>

text \<open>A concrete configuration, token and store, used where a property is evaluated.\<close>

definition example_settings :: settings where
  "example_settings =
     \<lparr>secret_key = ''k'', algorithm = ''HS256'', access_token_expire_minutes = 30,
      refresh_token_expire_days = 7, password_reset_token_expire_hours = 1,
      cache_namespace = ''app'', cache_ttl = 300, redis_session_expire = 3600,
      feature_email_verification = False\<rparr>"

definition example_token :: "rat \<Rightarrow> token" where
  "example_token e =
     Signed ''k'' ''HS256''
       [(''sub'', JStr ''7''), (''exp'', JNum e), (''iat'', JNum 100), (''type'', JStr ''access'')]"

text \<open>A rendering of exceptions as the framework's \<^verbatim>\<open>str(e)\<close> may give it.\<close>

definition example_exc_str :: "exn \<Rightarrow> string" where
  "example_exc_str e = (case e of AuthenticationError d \<Rightarrow> ''401: '' @ d | _ \<Rightarrow> [])"

definition empty_redis :: redis where
  "empty_redis = \<lparr>reachable = True, strings = Map.empty, zsets = Map.empty, ttl = Map.empty\<rparr>"

text \<open>A user whose stored credential is the toy hash of the password \<^verbatim>\<open>correct horse\<close>.\<close>

definition example_user :: user where
  "example_user =
     \<lparr>user_id = 7, email = ''ann@example.com'', username = ''ann'',
      hashed_password = Some ''arg:correct horse'', is_active = True, is_superuser = False,
      email_verified = True, updated_at = 500, last_login_at = None\<rparr>"

text \<open>
  A toy hasher: the credential of a password is the password behind the tag \<^verbatim>\<open>arg:\<close>;
  a stored value without the tag is no hash. A toy serialiser, a database with an active
  and a deactivated user, and two login requests.
\<close>

definition example_hasher :: hasher where
  "example_hasher hashed plain =
     (case hashed of
        None \<Rightarrow> Inl TypeError
      | Some c \<Rightarrow>
          if take 4 c \<noteq> ''arg:'' then Inl InvalidHash
          else if drop 4 c = plain then Inr ()
          else Inl VerifyMismatchError)"

definition example_dumps :: "claims \<Rightarrow> string" where
  "example_dumps c = concat (map fst c)"

definition example_inactive_user :: user where
  "example_inactive_user =
     \<lparr>user_id = 8, email = ''bob@example.com'', username = ''bob'',
      hashed_password = Some ''arg:battery staple'', is_active = False, is_superuser = False,
      email_verified = True, updated_at = 600, last_login_at = None\<rparr>"

definition example_database :: database where
  "example_database = \<lparr>available = True, users = [example_user, example_inactive_user]\<rparr>"

text \<open>A manager without connections and a network on which no socket is broken.\<close>

definition empty_manager :: connection_manager where
  "empty_manager = \<lparr>active_connections = Map.empty, connection_metadata = Map.empty\<rparr>"

definition sound_network :: network where
  "sound_network = \<lparr>broken = (\<lambda>w. False), delivered = []\<rparr>"

section \<open>Verified properties\<close>

text \<open>
  C9. A token whose decoded claim set has no \<^verbatim>\<open>exp\<close> claim is invalid: \<open>verify_token\<close>
  returns \<^verbatim>\<open>None\<close> for it at every time, also when its signature is valid.
\<close>

theorem verify_token_without_exp_invalid:
  assumes "jwt_decode tok (secret_key s) [algorithm s] = Inr payload"
      and "dict_get payload ''exp'' = None"
  shows "verify_token s now tok = Inr None"
  using assms by (simp add: verify_token_def)

theorem verify_token_without_exp_invalid_witness:
  "jwt_decode (Signed ''k'' ''HS256'' [(''sub'', JStr ''7'')]) ''k'' [''HS256'']
     = Inr [(''sub'', JStr ''7'')]
   \<and> dict_get [(''sub'', JStr ''7'')] ''exp'' = None
   \<and> verify_token \<lparr>secret_key = ''k'', algorithm = ''HS256'', access_token_expire_minutes = 30,
        refresh_token_expire_days = 7, password_reset_token_expire_hours = 1,
        cache_namespace = ''app'', cache_ttl = 300, redis_session_expire = 3600,
        feature_email_verification = False\<rparr> 1000
        (Signed ''k'' ''HS256'' [(''sub'', JStr ''7'')]) = Inr None"
  using verify_token_without_exp_invalid
    [of "Signed ''k'' ''HS256'' [(''sub'', JStr ''7'')]"
        "\<lparr>secret_key = ''k'', algorithm = ''HS256'', access_token_expire_minutes = 30,
        refresh_token_expire_days = 7, password_reset_token_expire_hours = 1,
        cache_namespace = ''app'', cache_ttl = 300, redis_session_expire = 3600,
        feature_email_verification = False\<rparr>" "[(''sub'', JStr ''7'')]" 1000]
  by (simp add: dict_get_def)


subsection \<open>Revocation check when the store fails\<close>

text \<open>
  C1, as the claim states it, fails. The store below holds a blacklist entry for the token
  but is unreachable: the revocation check answers \<^verbatim>\<open>False\<close>, no exception surfaces, and
  the authenticated dependency returns the token's claims.
\<close>

theorem revocation_check_fails_open_counterexample:
  "is_token_revoked
     \<lparr>redis_client = Some (empty_redis\<lparr>reachable := False,
        strings := [blacklist_key (example_token 2000) \<mapsto> ''revoked'']\<rparr>)\<rparr>
     (example_token 2000) = False
   \<and> get_current_user_token example_exc_str example_settings
     \<lparr>redis_client = Some (empty_redis\<lparr>reachable := False,
        strings := [blacklist_key (example_token 2000) \<mapsto> ''revoked'']\<rparr>)\<rparr>
     1000 (example_token 2000)
     = Inr [(''sub'', JStr ''7''), (''exp'', JNum 2000), (''iat'', JNum 100),
            (''type'', JStr ''access'')]"
  by (simp add: is_token_revoked_def exists_key_def redis_exists_def empty_redis_def
      get_current_user_token_def get_current_user_token_body_def verify_token_not_revoked_def
      verify_token_def dict_get_def example_settings_def example_token_def)

text \<open>
  C1, amended. When the store operation fails during a blacklist check (there is no client,
  or the lookup raises), \<open>exists\<close> answers \<^verbatim>\<open>False\<close>, \<open>is_token_revoked\<close> answers
  \<^verbatim>\<open>False\<close> and \<open>verify_token_not_revoked\<close> raises nothing: the check fails open and
  the token is treated as not revoked.
\<close>

theorem revocation_check_fails_open:
  assumes "redis_client rm = None \<or> (\<exists>r. redis_client rm = Some r \<and> \<not> reachable r)"
  shows "exists_key rm (blacklist_key tok) = Inr False
       \<and> is_token_revoked rm tok = False
       \<and> verify_token_not_revoked rm tok = Inr ()"
  using assms
  by (auto simp: exists_key_def redis_exists_def is_token_revoked_def
      verify_token_not_revoked_def)

theorem revocation_check_fails_open_witness:
  "exists_key \<lparr>redis_client = Some (empty_redis\<lparr>reachable := False\<rparr>)\<rparr>
     (blacklist_key (example_token 2000)) = Inr False
   \<and> is_token_revoked \<lparr>redis_client = Some (empty_redis\<lparr>reachable := False\<rparr>)\<rparr>
     (example_token 2000) = False
   \<and> verify_token_not_revoked \<lparr>redis_client = Some (empty_redis\<lparr>reachable := False\<rparr>)\<rparr>
     (example_token 2000) = Inr ()"
  using revocation_check_fails_open
    [of "\<lparr>redis_client = Some (empty_redis\<lparr>reachable := False\<rparr>)\<rparr>" "example_token 2000"]
  by (simp add: empty_redis_def)

subsection \<open>Revoking a token\<close>

lemma revoke_token_dead:
  assumes "verify_token s now_v tok = Inr (Some payload)" and "0 < now_v"
      and "dict_get payload ''exp'' = Some ev" and "as_number ev = Some e"
      and "py_int (e - now_r) \<le> 0"
  shows "revoke_token s rm now_v now_r tok = (True, rm)"
  using assms
  by (auto simp: revoke_token_def revoke_token_body_def verify_token_def dict_get_def
      split: sum.splits option.splits jval.splits if_splits)

lemma revoke_token_live:
  assumes "verify_token s now_v tok = Inr (Some payload)" and "0 < now_v"
      and "dict_get payload ''exp'' = Some ev" and "as_number ev = Some e"
      and "0 < py_int (e - now_r)" and "redis_client rm = Some r" and "reachable r"
  shows "revoke_token s rm now_v now_r tok =
           (True, rm\<lparr>redis_client := Some (r\<lparr>
              strings := (strings r)(blacklist_key tok \<mapsto> ''revoked''),
              zsets := (zsets r)(blacklist_key tok := None),
              ttl := (ttl r)(blacklist_key tok \<mapsto> py_int (e - now_r))\<rparr>)\<rparr>)"
  using assms
  by (auto simp: revoke_token_def revoke_token_body_def verify_token_def dict_get_def
      set_key_def redis_set_def split: sum.splits option.splits jval.splits if_splits)

text \<open>
  C4, as the claim states it, fails at three inputs (clock at 1000 in each). A token that
  expired at 990 has a remaining lifetime below zero, yet \<open>revoke_token\<close> answers
  \<^verbatim>\<open>False\<close>: \<open>verify_token\<close> rejects it first. A token that expires at 1000.5 has a
  positive remaining lifetime, yet nothing is inserted: the lifetime is truncated to 0
  whole seconds. A token that expires at 1060 is not inserted when the store is
  unreachable, and the answer is \<^verbatim>\<open>False\<close>.
\<close>

theorem revoke_token_counterexample:
  "revoke_token example_settings \<lparr>redis_client = Some empty_redis\<rparr> 1000 1000
     (example_token 990) = (False, \<lparr>redis_client = Some empty_redis\<rparr>)
   \<and> revoke_token example_settings \<lparr>redis_client = Some empty_redis\<rparr> 1000 1000
     (example_token (2001 / 2)) = (True, \<lparr>redis_client = Some empty_redis\<rparr>)
   \<and> revoke_token example_settings
     \<lparr>redis_client = Some (empty_redis\<lparr>reachable := False\<rparr>)\<rparr> 1000 1000
     (example_token 1060)
     = (False, \<lparr>redis_client = Some (empty_redis\<lparr>reachable := False\<rparr>)\<rparr>)"
  by (simp add: revoke_token_def revoke_token_body_def verify_token_def dict_get_def
      example_settings_def example_token_def py_int_def set_key_def redis_set_def
      empty_redis_def)

text \<open>
  C4, amended. For a token that \<open>verify_token\<close> accepts when \<open>revoke_token\<close> is called
  (valid signature, \<^verbatim>\<open>exp\<close> present and not in the past; the clock is after the epoch),
  the remaining lifetime is \<^verbatim>\<open>int(exp - now)\<close>, truncated to whole seconds. If it is at
  most zero, \<open>revoke_token\<close> answers \<^verbatim>\<open>True\<close> and leaves the store as it is. If it is
  positive and the store is reachable, \<open>revoke_token\<close> answers \<^verbatim>\<open>True\<close> and the store
  holds the marker \<^verbatim>\<open>"revoked"\<close> under the blacklist key of the raw token, with that
  time-to-live.
\<close>

theorem revoke_token_accepted_token:
  assumes "verify_token s now_v tok = Inr (Some payload)" and "0 < now_v"
      and "dict_get payload ''exp'' = Some ev" and "as_number ev = Some e"
  shows "(py_int (e - now_r) \<le> 0 \<longrightarrow> revoke_token s rm now_v now_r tok = (True, rm))
       \<and> (0 < py_int (e - now_r) \<longrightarrow> redis_client rm = Some r \<longrightarrow> reachable r \<longrightarrow>
            revoke_token s rm now_v now_r tok =
              (True, rm\<lparr>redis_client := Some (r\<lparr>
                 strings := (strings r)(blacklist_key tok \<mapsto> ''revoked''),
                 zsets := (zsets r)(blacklist_key tok := None),
                 ttl := (ttl r)(blacklist_key tok \<mapsto> py_int (e - now_r))\<rparr>)\<rparr>))"
  using revoke_token_dead [OF assms] revoke_token_live [OF assms] by blast

theorem revoke_token_accepted_token_witness:
  "verify_token example_settings 1000 (example_token 1060)
     = Inr (Some [(''sub'', JStr ''7''), (''exp'', JNum 1060), (''iat'', JNum 100),
                  (''type'', JStr ''access'')])
   \<and> py_int (1060 - 1000) = 60
   \<and> revoke_token example_settings \<lparr>redis_client = Some empty_redis\<rparr> 1000 1000
       (example_token 1060)
     = (True, \<lparr>redis_client = Some (empty_redis\<lparr>
          strings := [blacklist_key (example_token 1060) \<mapsto> ''revoked''],
          ttl := [blacklist_key (example_token 1060) \<mapsto> 60]\<rparr>)\<rparr>)
   \<and> verify_token example_settings 1000 (example_token 1000)
     = Inr (Some [(''sub'', JStr ''7''), (''exp'', JNum 1000), (''iat'', JNum 100),
                  (''type'', JStr ''access'')])
   \<and> py_int (1000 - 1000) = 0
   \<and> revoke_token example_settings \<lparr>redis_client = Some empty_redis\<rparr> 1000 1000
       (example_token 1000)
     = (True, \<lparr>redis_client = Some empty_redis\<rparr>)"
proof -
  have v1: "verify_token example_settings 1000 (example_token 1060)
     = Inr (Some [(''sub'', JStr ''7''), (''exp'', JNum 1060), (''iat'', JNum 100),
                  (''type'', JStr ''access'')])"
    by (simp add: verify_token_def dict_get_def example_settings_def example_token_def)
  have v2: "verify_token example_settings 1000 (example_token 1000)
     = Inr (Some [(''sub'', JStr ''7''), (''exp'', JNum 1000), (''iat'', JNum 100),
                  (''type'', JStr ''access'')])"
    by (simp add: verify_token_def dict_get_def example_settings_def example_token_def)
  have p1: "py_int (1060 - 1000) = 60" and p2: "py_int (1000 - 1000) = 0"
    by (simp_all add: py_int_def)
  have e1: "dict_get [(''sub'', JStr ''7''), (''exp'', JNum 1060), (''iat'', JNum 100),
                  (''type'', JStr ''access'')] ''exp'' = Some (JNum 1060)"
    and e2: "dict_get [(''sub'', JStr ''7''), (''exp'', JNum 1000), (''iat'', JNum 100),
                  (''type'', JStr ''access'')] ''exp'' = Some (JNum 1000)"
    by (simp_all add: dict_get_def)
  have n: "as_number (JNum 1060) = Some 1060" "as_number (JNum 1000) = Some 1000"
    by simp_all
  have pos: "(0::rat) < 1000" by simp
  note t1 = revoke_token_accepted_token [OF v1 pos e1 n(1),
      of 1000 "\<lparr>redis_client = Some empty_redis\<rparr>" empty_redis]
  note t2 = revoke_token_accepted_token [OF v2 pos e2 n(2),
      of 1000 "\<lparr>redis_client = Some empty_redis\<rparr>" empty_redis]
  have r1: "revoke_token example_settings \<lparr>redis_client = Some empty_redis\<rparr> 1000 1000
       (example_token 1060)
     = (True, \<lparr>redis_client = Some (empty_redis\<lparr>
          strings := [blacklist_key (example_token 1060) \<mapsto> ''revoked''],
          ttl := [blacklist_key (example_token 1060) \<mapsto> 60]\<rparr>)\<rparr>)"
    using t1 p1 by (simp add: empty_redis_def)
  have r2: "revoke_token example_settings \<lparr>redis_client = Some empty_redis\<rparr> 1000 1000
       (example_token 1000) = (True, \<lparr>redis_client = Some empty_redis\<rparr>)"
    using t2 p2 by simp
  show ?thesis using v1 v2 p1 p2 r1 r2 by simp
qed

subsection \<open>Rate limiter\<close>

lemmas rate_limit_eval =
  rate_limit_def rate_limit_script_def zremrangebyscore_def zcard_def zadd_def
  expire_key_def empty_redis_def example_settings_def Let_def

text \<open>
  C2. With limit 3 and window 60, four requests that fall into the same second of the
  clock are all allowed: each one is stored in the sorted set under the member
  \<open>now\<close>, so the set never holds more than one entry for that second.
\<close>

theorem rate_limit_same_second_all_allowed:
  "requests example_settings \<lparr>redis_client = Some empty_redis\<rparr> ''api_requests'' 3 60
     ''10.0.0.1'' [1000, 1000, 1000, 1000] = [True, True, True, True]"
  by (simp add: rate_limit_eval)

text \<open>
  When every request falls into a second of its own, the fourth one is refused, and a
  request 60 seconds after the first is allowed again.
\<close>

lemma rate_limit_distinct_seconds:
  "requests example_settings \<lparr>redis_client = Some empty_redis\<rparr> ''api_requests'' 3 60
     ''10.0.0.1'' [1000, 1001, 1002, 1003, 1060] = [True, True, True, False, True]"
  by (simp add: rate_limit_eval)

subsection \<open>Token pairs\<close>

lemma map_of_dict_update: "map_of (dict_update d e) = map_of d ++ map_of (rev e)"
  unfolding dict_update_def
  by (induction e arbitrary: d) (auto simp: update_conv' map_add_def fun_eq_iff split: option.splits)

lemma map_of_rev_distinct: "distinct (map fst e) \<Longrightarrow> map_of (rev e) = map_of e"
  by (rule map_of_inject_set[THEN iffD2]) (auto simp: rev_map[symmetric])

lemma refresh_token_of_pair:
  "refresh_token (create_token_pair s uid ad t1 t2 t3 t4) =
     Signed (secret_key s) (algorithm s)
       [(''sub'', JStr (str_int uid)), (''type'', JStr ''refresh''),
        (''exp'', JNum (t3 + of_int (refresh_token_expire_days s) * 86400)), (''iat'', JNum t4)]"
  by (simp add: create_token_pair_def create_refresh_token_def jwt_encode_def dict_update_def expiry_def Let_def)

lemma access_token_of_pair:
  "\<exists>c. access_token (create_token_pair s uid ad t1 t2 t3 t4) = Signed (secret_key s) (algorithm s) c
     \<and> dict_get c ''type'' = Some (JStr ''access'')
     \<and> dict_get c ''exp'' = Some (JNum (t1 + of_int (access_token_expire_minutes s) * 60))"
  by (auto simp add: create_token_pair_def create_access_token_def jwt_encode_def dict_get_def map_of_dict_update expiry_def Let_def)

lemma verify_access:
  "verify_token s now (access_token (create_token_pair s uid ad t1 t2 t3 t4)) = Inr (Some p)
    \<Longrightarrow> dict_get p ''type'' = Some (JStr ''access'')"
  using access_token_of_pair[of s uid ad t1 t2 t3 t4]
  by (auto simp: verify_token_def split: if_splits)

lemma verify_refresh:
  "verify_token s now (refresh_token (create_token_pair s uid ad t1 t2 t3 t4)) = Inr (Some p)
    \<Longrightarrow> dict_get p ''type'' = Some (JStr ''refresh'')"
  by (auto simp: refresh_token_of_pair verify_token_def dict_get_def split: if_splits)

lemma refresh_rejects_access:
  "refresh_token_endpoint parse s db now u1 u2 u3 u4 (access_token (create_token_pair s uid ad t1 t2 t3 t4))
    = Inl (HTTPException 401 (if t1 + of_int (access_token_expire_minutes s) * 60 < now then ''Invalid refresh token'' else ''Invalid token type''))"
  using access_token_of_pair[of s uid ad t1 t2 t3 t4]
  by (auto simp: refresh_token_endpoint_def refresh_token_body_def verify_token_def dict_get_def)

lemma ws_rejects_refresh:
  "authenticate_websocket parse s now (Some (refresh_token (create_token_pair s uid ad t1 t2 t3 t4))) q
    = Closed 1008 (if t3 + of_int (refresh_token_expire_days s) * 86400 < now then ''Invalid token'' else ''Invalid token type'')"
  by (simp add: authenticate_websocket_def authenticate_websocket_body_def refresh_token_of_pair verify_token_def dict_get_def)

lemma ws_rejects_refresh_query:
  "authenticate_websocket parse s now None (Some (refresh_token (create_token_pair s uid ad t1 t2 t3 t4)))
    = Closed 1008 (if t3 + of_int (refresh_token_expire_days s) * 86400 < now then ''Invalid token'' else ''Invalid token type'')"
  by (simp add: authenticate_websocket_def authenticate_websocket_body_def refresh_token_of_pair verify_token_def dict_get_def)

lemma deps_rejects_refresh:
  "\<exists>d. get_current_user_token exc_str s rm now (refresh_token (create_token_pair s uid ad t1 t2 t3 t4))
    = Inl (HTTPException 401 d)"
  by (simp add: get_current_user_token_def get_current_user_token_body_def verify_token_not_revoked_def refresh_token_of_pair verify_token_def dict_get_def)


lemma access_token_extra_claims:
  assumes "distinct (map fst ad)"
  shows "\<exists>c. access_token (create_token_pair s uid (Some ad) t1 t2 t3 t4)
            = Signed (secret_key s) (algorithm s) c
     \<and> dict_get c ''email'' = dict_get ad ''email''
     \<and> dict_get c ''username'' = dict_get ad ''username''
     \<and> dict_get c ''is_superuser'' = dict_get ad ''is_superuser''"
  using assms
  by (auto simp add: create_token_pair_def create_access_token_def jwt_encode_def dict_get_def
      map_of_dict_update expiry_def Let_def map_of_rev_distinct map_add_def
      split: option.splits)

text \<open>
  C10. For every user id and every additional data, the refresh token of
  \<open>create_token_pair\<close> carries exactly the claims \<^verbatim>\<open>sub\<close> (the user id as a string),
  \<^verbatim>\<open>type\<close> (\<^verbatim>\<open>"refresh"\<close>), \<^verbatim>\<open>exp\<close> and \<^verbatim>\<open>iat\<close>, so none of the identity claims of
  the caller; the access token carries the caller's \<^verbatim>\<open>email\<close>, \<^verbatim>\<open>username\<close> and
  \<^verbatim>\<open>is_superuser\<close> as they were given (the additional data is a dictionary: its keys
  are distinct).
\<close>

theorem refresh_token_claims_exact:
  assumes "distinct (map fst ad)"
  shows "jwt_decode (refresh_token (create_token_pair s uid additional_data t1 t2 t3 t4))
           (secret_key s) [algorithm s]
         = Inr [(''sub'', JStr (str_int uid)), (''type'', JStr ''refresh''),
                (''exp'', JNum (t3 + of_int (refresh_token_expire_days s) * 86400)),
                (''iat'', JNum t4)]
       \<and> (\<exists>c. jwt_decode (access_token (create_token_pair s uid (Some ad) t1 t2 t3 t4))
                 (secret_key s) [algorithm s] = Inr c
              \<and> dict_get c ''email'' = dict_get ad ''email''
              \<and> dict_get c ''username'' = dict_get ad ''username''
              \<and> dict_get c ''is_superuser'' = dict_get ad ''is_superuser'')"
proof -
  have "jwt_decode (refresh_token (create_token_pair s uid additional_data t1 t2 t3 t4))
           (secret_key s) [algorithm s]
         = Inr [(''sub'', JStr (str_int uid)), (''type'', JStr ''refresh''),
                (''exp'', JNum (t3 + of_int (refresh_token_expire_days s) * 86400)),
                (''iat'', JNum t4)]"
    by (simp add: refresh_token_of_pair)
  moreover from access_token_extra_claims [OF assms, of s uid t1 t2 t3 t4]
  obtain c where "access_token (create_token_pair s uid (Some ad) t1 t2 t3 t4)
            = Signed (secret_key s) (algorithm s) c"
     and "dict_get c ''email'' = dict_get ad ''email''"
     and "dict_get c ''username'' = dict_get ad ''username''"
     and "dict_get c ''is_superuser'' = dict_get ad ''is_superuser''"
    by blast
  ultimately show ?thesis by simp
qed

theorem refresh_token_claims_exact_witness:
  "distinct (map fst (identity_claims example_user))
   \<and> jwt_decode (refresh_token (create_token_pair example_settings 7
         (Some (identity_claims example_user)) 1000 1000 1000 1000)) ''k'' [''HS256'']
       = Inr [(''sub'', JStr ''7''), (''type'', JStr ''refresh''), (''exp'', JNum 605800),
              (''iat'', JNum 1000)]
   \<and> (\<exists>c. jwt_decode (access_token (create_token_pair example_settings 7
         (Some (identity_claims example_user)) 1000 1000 1000 1000)) ''k'' [''HS256''] = Inr c
         \<and> dict_get c ''email'' = Some (JStr ''ann@example.com'')
         \<and> dict_get c ''username'' = Some (JStr ''ann'')
         \<and> dict_get c ''is_superuser'' = Some (JBool False))"
proof -
  have d: "distinct (map fst (identity_claims example_user))"
    by (simp add: identity_claims_def)
  have s: "str_int 7 = ''7''"
    by (simp add: str_int_def str_nat.simps)
  have k: "secret_key example_settings = ''k''" "algorithm example_settings = ''HS256''"
    "refresh_token_expire_days example_settings = 7"
    by (simp_all add: example_settings_def)
  have g: "dict_get (identity_claims example_user) ''email'' = Some (JStr ''ann@example.com'')"
    "dict_get (identity_claims example_user) ''username'' = Some (JStr ''ann'')"
    "dict_get (identity_claims example_user) ''is_superuser'' = Some (JBool False)"
    by (simp_all add: identity_claims_def dict_get_def example_user_def)
  show ?thesis
    using d refresh_token_claims_exact [OF d, of example_settings 7
        "Some (identity_claims example_user)" 1000 1000 1000 1000]
    by (simp add: s k g)
qed

text \<open>
  C3. For a pair made by \<open>create_token_pair\<close>: whenever \<open>verify_token\<close> accepts the
  access token its claims have type \<^verbatim>\<open>"access"\<close>, and whenever it accepts the refresh
  token its claims have type \<^verbatim>\<open>"refresh"\<close>. The refresh flow answers the access token
  with a 401, and the authenticated HTTP dependency and the WebSocket authentication
  reject the refresh token (a 401, and a close frame with code 1008), at every time and
  whatever the stores hold.
\<close>

theorem token_types_not_interchangeable:
  assumes "pair = create_token_pair s uid ad t1 t2 t3 t4"
  shows "(\<forall>p. verify_token s now (access_token pair) = Inr (Some p)
              \<longrightarrow> dict_get p ''type'' = Some (JStr ''access''))
       \<and> (\<forall>p. verify_token s now (refresh_token pair) = Inr (Some p)
              \<longrightarrow> dict_get p ''type'' = Some (JStr ''refresh''))
       \<and> (\<exists>d. refresh_token_endpoint parse s db now u1 u2 u3 u4 (access_token pair)
              = Inl (HTTPException 401 d))
       \<and> (\<exists>d. get_current_user_token exc_str s rm now (refresh_token pair)
              = Inl (HTTPException 401 d))
       \<and> (\<exists>d. authenticate_websocket parse s now (Some (refresh_token pair)) q
              = Closed 1008 d)
       \<and> (\<exists>d. authenticate_websocket parse s now None (Some (refresh_token pair))
              = Closed 1008 d)"
  unfolding assms
  by (auto intro: verify_access verify_refresh deps_rejects_refresh
      simp: refresh_rejects_access ws_rejects_refresh ws_rejects_refresh_query)

theorem token_types_not_interchangeable_witness:
  "verify_token example_settings 1001
      (access_token (create_token_pair example_settings 7 None 1000 1000 1000 1000))
     = Inr (Some [(''sub'', JStr ''7''), (''exp'', JNum 2800), (''iat'', JNum 1000),
                  (''type'', JStr ''access'')])
   \<and> verify_token example_settings 1001
      (refresh_token (create_token_pair example_settings 7 None 1000 1000 1000 1000))
     = Inr (Some [(''sub'', JStr ''7''), (''type'', JStr ''refresh''), (''exp'', JNum 605800),
                  (''iat'', JNum 1000)])
   \<and> dict_get [(''sub'', JStr ''7''), (''exp'', JNum 2800), (''iat'', JNum 1000),
                (''type'', JStr ''access'')] ''type'' = Some (JStr ''access'')
   \<and> dict_get [(''sub'', JStr ''7''), (''type'', JStr ''refresh''), (''exp'', JNum 605800),
                (''iat'', JNum 1000)] ''type'' = Some (JStr ''refresh'')"
proof -
  have s: "str_int 7 = ''7''"
    by (simp add: str_int_def str_nat.simps)
  have a: "verify_token example_settings 1001
      (access_token (create_token_pair example_settings 7 None 1000 1000 1000 1000))
     = Inr (Some [(''sub'', JStr ''7''), (''exp'', JNum 2800), (''iat'', JNum 1000),
                  (''type'', JStr ''access'')])"
    by (simp add: create_token_pair_def create_access_token_def jwt_encode_def dict_update_def
        expiry_def verify_token_def dict_get_def example_settings_def s)
  have r: "verify_token example_settings 1001
      (refresh_token (create_token_pair example_settings 7 None 1000 1000 1000 1000))
     = Inr (Some [(''sub'', JStr ''7''), (''type'', JStr ''refresh''), (''exp'', JNum 605800),
                  (''iat'', JNum 1000)])"
    by (simp add: create_token_pair_def create_refresh_token_def jwt_encode_def dict_update_def
        expiry_def verify_token_def dict_get_def example_settings_def s)
  from token_types_not_interchangeable [OF refl, of example_settings 1001 7 None
      1000 1000 1000 1000]
  show ?thesis using a r by blast
qed

subsection \<open>Password verification\<close>

text \<open>
  C6, as the claim states it, fails in its second half. The stored value below is no hash,
  the hasher raises \<^verbatim>\<open>InvalidHash\<close>, which is not a mismatch, and \<open>verify_password\<close>
  turns it into the return value \<^verbatim>\<open>False\<close>.
\<close>

theorem verify_password_counterexample:
  "example_hasher (Some ''plain-text'') ''secret'' = Inl InvalidHash
   \<and> verify_password example_hasher ''secret'' (Some ''plain-text'') = Inr False"
  by (simp add: example_hasher_def verify_password_def)

text \<open>
  C6, amended. For every password and stored credential, \<open>verify_password\<close> returns
  \<^verbatim>\<open>False\<close> (and does not raise) when the password does not match the credential, and
  logs nothing then. It never raises: every other failure of the hasher, a hashing error
  or any unexpected exception, is logged in one line and also returned as \<^verbatim>\<open>False\<close>, and
  \<^verbatim>\<open>True\<close> is returned exactly when the hasher accepts.
\<close>

theorem verify_password_never_raises:
  "(h c p = Inl VerifyMismatchError
      \<longrightarrow> verify_password h p c = Inr False \<and> verify_password_log h p c = [])
   \<and> (\<forall>e. h c p = Inl e \<longrightarrow> verify_password h p c = Inr False)
   \<and> (h c p = Inl HashingError
      \<longrightarrow> verify_password_log h p c = [LogError ''Password verification error: '' HashingError])
   \<and> (\<forall>e. h c p = Inl e \<longrightarrow> e \<noteq> VerifyMismatchError \<longrightarrow> e \<noteq> HashingError
      \<longrightarrow> verify_password_log h p c = [LogError ''Unexpected password verification error: '' e])
   \<and> (h c p = Inr () \<longrightarrow> verify_password h p c = Inr True \<and> verify_password_log h p c = [])
   \<and> (\<forall>e. verify_password h p c \<noteq> Inl e)"
  by (cases "h c p") (auto simp: verify_password_def verify_password_log_def)

theorem verify_password_never_raises_witness:
  "example_hasher (Some ''arg:secret'') ''guess'' = Inl VerifyMismatchError
   \<and> verify_password example_hasher ''guess'' (Some ''arg:secret'') = Inr False
   \<and> verify_password_log example_hasher ''guess'' (Some ''arg:secret'') = []
   \<and> example_hasher (Some ''plain-text'') ''secret'' = Inl InvalidHash
   \<and> verify_password example_hasher ''secret'' (Some ''plain-text'') = Inr False
   \<and> verify_password_log example_hasher ''secret'' (Some ''plain-text'')
       = [LogError ''Unexpected password verification error: '' InvalidHash]
   \<and> example_hasher None ''secret'' = Inl TypeError
   \<and> verify_password example_hasher ''secret'' None = Inr False
   \<and> example_hasher (Some ''arg:secret'') ''secret'' = Inr ()
   \<and> verify_password example_hasher ''secret'' (Some ''arg:secret'') = Inr True
   \<and> verify_password_log example_hasher ''secret'' (Some ''arg:secret'') = []"
proof -
  have m: "example_hasher (Some ''arg:secret'') ''guess'' = Inl VerifyMismatchError"
    and i: "example_hasher (Some ''plain-text'') ''secret'' = Inl InvalidHash"
    and n: "example_hasher None ''secret'' = Inl TypeError"
    and a: "example_hasher (Some ''arg:secret'') ''secret'' = Inr ()"
    by (simp_all add: example_hasher_def)
  have c1: "verify_password example_hasher ''guess'' (Some ''arg:secret'') = Inr False
      \<and> verify_password_log example_hasher ''guess'' (Some ''arg:secret'') = []"
    using verify_password_never_raises [of example_hasher "Some ''arg:secret''" "''guess''"] m
    by simp
  have c2: "verify_password example_hasher ''secret'' (Some ''plain-text'') = Inr False
      \<and> verify_password_log example_hasher ''secret'' (Some ''plain-text'')
           = [LogError ''Unexpected password verification error: '' InvalidHash]"
    using verify_password_never_raises [of example_hasher "Some ''plain-text''" "''secret''"] i
    by simp
  have c3: "verify_password example_hasher ''secret'' None = Inr False"
    using verify_password_never_raises [of example_hasher None "''secret''"] n
    by simp
  have c4: "verify_password example_hasher ''secret'' (Some ''arg:secret'') = Inr True
      \<and> verify_password_log example_hasher ''secret'' (Some ''arg:secret'') = []"
    using verify_password_never_raises [of example_hasher "Some ''arg:secret''" "''secret''"] a
    by simp
  show ?thesis using m i n a c1 c2 c3 c4 by simp
qed

subsection \<open>Login\<close>

lemma login_inactive:
  assumes "get_by_email db (login_email req) = Inr (Some u)
           \<or> (get_by_email db (login_email req) = Inr None
              \<and> get_by_username db (login_email req) = Inr (Some u))"
      and "verify_password h (login_password req) (hashed_password u) = Inr True"
      and "\<not> is_active u"
  shows "fst (login h dumps s db rm sid now t1 t2 t3 t4 req)
           = Inl (HTTPException 401 ''Account is deactivated'')"
  using assms by (auto simp: login_def login_body_def)

lemma login_wrong_password:
  assumes "get_by_email db (login_email req) = Inr (Some u)
           \<or> (get_by_email db (login_email req) = Inr None
              \<and> get_by_username db (login_email req) = Inr (Some u))"
      and "verify_password h (login_password req) (hashed_password u) = Inr False"
  shows "fst (login h dumps s db rm sid now t1 t2 t3 t4 req)
           = Inl (HTTPException 401 ''Invalid credentials'')"
  using assms by (auto simp: login_def login_body_def)

lemma login_no_user:
  assumes "get_by_email db (login_email req) = Inr None"
      and "get_by_username db (login_email req) = Inr None"
  shows "fst (login h dumps s db rm sid now t1 t2 t3 t4 req)
           = Inl (HTTPException 401 ''Invalid credentials'')"
  using assms by (auto simp: login_def login_body_def)

text \<open>
  C5. Let the email field of the request resolve to the user \<open>u\<close>, by email or by
  username. If the password is verified and \<open>u\<close> is inactive, login fails with a 401
  whose detail is \<^verbatim>\<open>Account is deactivated\<close>. If the password is not verified, login
  fails with a 401 whose detail is \<^verbatim>\<open>Invalid credentials\<close>, whether \<open>u\<close> is active or
  not, and that is the very failure of a request whose email field resolves to no user.
\<close>

theorem login_failure_details:
  assumes "get_by_email db (login_email req) = Inr (Some u)
           \<or> (get_by_email db (login_email req) = Inr None
              \<and> get_by_username db (login_email req) = Inr (Some u))"
      and "get_by_email db0 (login_email req0) = Inr None"
      and "get_by_username db0 (login_email req0) = Inr None"
  shows "(verify_password h (login_password req) (hashed_password u) = Inr True
            \<longrightarrow> \<not> is_active u
            \<longrightarrow> fst (login h dumps s db rm sid now t1 t2 t3 t4 req)
                  = Inl (HTTPException 401 ''Account is deactivated''))
       \<and> (verify_password h (login_password req) (hashed_password u) = Inr False
            \<longrightarrow> fst (login h dumps s db rm sid now t1 t2 t3 t4 req)
                  = Inl (HTTPException 401 ''Invalid credentials'')
              \<and> fst (login h dumps s db rm sid now t1 t2 t3 t4 req)
                  = fst (login h0 dumps0 s0 db0 rm0 sid0 now0 u1 u2 u3 u4 req0))"
  using login_inactive [OF assms(1)] login_wrong_password [OF assms(1)]
    login_no_user [OF assms(2,3)]
  by simp

theorem login_failure_details_witness:
  "fst (login example_hasher example_dumps example_settings example_database
          \<lparr>redis_client = Some empty_redis\<rparr> ''sid'' 1000 1000 1000 1000 1000
          \<lparr>login_email = ''bob@example.com'', login_password = ''battery staple''\<rparr>)
     = Inl (HTTPException 401 ''Account is deactivated'')
   \<and> fst (login example_hasher example_dumps example_settings example_database
          \<lparr>redis_client = Some empty_redis\<rparr> ''sid'' 1000 1000 1000 1000 1000
          \<lparr>login_email = ''bob'', login_password = ''a guess''\<rparr>)
     = Inl (HTTPException 401 ''Invalid credentials'')
   \<and> fst (login example_hasher example_dumps example_settings example_database
          \<lparr>redis_client = Some empty_redis\<rparr> ''sid'' 1000 1000 1000 1000 1000
          \<lparr>login_email = ''carol@example.com'', login_password = ''a guess''\<rparr>)
     = Inl (HTTPException 401 ''Invalid credentials'')"
proof -
  have by_email: "get_by_email example_database ''bob@example.com''
                    = Inr (Some example_inactive_user)"
    and by_name: "get_by_email example_database ''bob'' = Inr None"
      "get_by_username example_database ''bob'' = Inr (Some example_inactive_user)"
    and nobody: "get_by_email example_database ''carol@example.com'' = Inr None"
      "get_by_username example_database ''carol@example.com'' = Inr None"
    by (simp_all add: get_by_email_def get_by_username_def scalar_one_or_none_def
        example_database_def example_user_def example_inactive_user_def)
  have good: "verify_password example_hasher ''battery staple''
                (hashed_password example_inactive_user) = Inr True"
    and bad: "verify_password example_hasher ''a guess''
                (hashed_password example_inactive_user) = Inr False"
    and inactive: "\<not> is_active example_inactive_user"
    by (simp_all add: verify_password_def example_hasher_def example_inactive_user_def)
  note t1 = login_failure_details
    [of example_database "\<lparr>login_email = ''bob@example.com'', login_password = ''battery staple''\<rparr>"
        example_inactive_user example_database
        "\<lparr>login_email = ''carol@example.com'', login_password = ''a guess''\<rparr>"
        example_hasher example_dumps example_settings "\<lparr>redis_client = Some empty_redis\<rparr>"
        "''sid''" 1000 1000 1000 1000 1000
        example_hasher example_dumps example_settings "\<lparr>redis_client = Some empty_redis\<rparr>"
        "''sid''" 1000 1000 1000 1000 1000]
  note t2 = login_failure_details
    [of example_database "\<lparr>login_email = ''bob'', login_password = ''a guess''\<rparr>"
        example_inactive_user example_database
        "\<lparr>login_email = ''carol@example.com'', login_password = ''a guess''\<rparr>"
        example_hasher example_dumps example_settings "\<lparr>redis_client = Some empty_redis\<rparr>"
        "''sid''" 1000 1000 1000 1000 1000
        example_hasher example_dumps example_settings "\<lparr>redis_client = Some empty_redis\<rparr>"
        "''sid''" 1000 1000 1000 1000 1000]
  have c1: "fst (login example_hasher example_dumps example_settings example_database
          \<lparr>redis_client = Some empty_redis\<rparr> ''sid'' 1000 1000 1000 1000 1000
          \<lparr>login_email = ''bob@example.com'', login_password = ''battery staple''\<rparr>)
     = Inl (HTTPException 401 ''Account is deactivated'')"
    using t1 by_email nobody good inactive by simp
  have c2: "fst (login example_hasher example_dumps example_settings example_database
          \<lparr>redis_client = Some empty_redis\<rparr> ''sid'' 1000 1000 1000 1000 1000
          \<lparr>login_email = ''bob'', login_password = ''a guess''\<rparr>)
     = Inl (HTTPException 401 ''Invalid credentials'')
     \<and> fst (login example_hasher example_dumps example_settings example_database
          \<lparr>redis_client = Some empty_redis\<rparr> ''sid'' 1000 1000 1000 1000 1000
          \<lparr>login_email = ''bob'', login_password = ''a guess''\<rparr>)
     = fst (login example_hasher example_dumps example_settings example_database
          \<lparr>redis_client = Some empty_redis\<rparr> ''sid'' 1000 1000 1000 1000 1000
          \<lparr>login_email = ''carol@example.com'', login_password = ''a guess''\<rparr>)"
    using t2 by_name nobody bad by auto
  show ?thesis
    using c1 c2 by metis
qed

subsection \<open>Password reset request\<close>

text \<open>
  C7. The response of \<open>request_password_reset\<close> is the generic success message with
  status 200 in every run, so the responses of any two runs are identical, whether the
  email belongs to an active user, to an inactive one or to nobody, and also when the
  lookup fails.
\<close>

theorem password_reset_request_uniform:
  "fst (request_password_reset s db t1 t2 e) = reset_message
   \<and> fst (request_password_reset s db t1 t2 e) = fst (request_password_reset s' db' t1' t2' e')"
  by (auto simp: request_password_reset_def request_password_reset_body_def Let_def
      split: sum.splits option.splits)

text \<open>
  The two runs of the claim, on the example database: the responses agree, and only the
  log tells the runs apart.
\<close>

lemma password_reset_request_example:
  "request_password_reset example_settings example_database 1000 1000 '' Ann@Example.com''
     = (reset_message, [''Password reset requested for: ann@example.com''])
   \<and> request_password_reset example_settings example_database 1000 1000 ''carol@example.com''
     = (reset_message, [])"
  by (simp add: request_password_reset_def request_password_reset_body_def
      sanitize_email_def py_strip_def py_lower_def lower_char_def is_space_def
      get_by_email_def scalar_one_or_none_def example_database_def example_user_def
      example_inactive_user_def)

subsection \<open>Connection manager\<close>

lemma map_of_rev_None: "map_of e k = None \<Longrightarrow> map_of (rev e) k = None"
  by (simp add: map_of_eq_None_iff)

lemma fresh_metadata_user_id:
  "dict_get (metadata_or_empty metadata) ''user_id'' = None
   \<Longrightarrow> dict_get (fresh_metadata uid now metadata) ''user_id'' = Some (MInt uid)"
  by (simp add: fresh_metadata_def dict_get_def map_of_dict_update map_add_def map_of_rev_None)

lemma touched_user_id:
  "dict_get md ''user_id'' = Some v
   \<Longrightarrow> dict_get (AList.update ''last_activity'' x md) ''user_id'' = Some v"
  by (simp add: dict_get_def update_conv')

lemma dict_get_nonempty: "dict_get md k = Some v \<Longrightarrow> md \<noteq> []"
  by (auto simp: dict_get_def)

lemma connect_first:
  assumes "active_connections m uid = None" and "\<not> broken net w1"
  shows "connect k t1 w1 uid meta1 (m, net) =
     Some (Inr (m\<lparr>active_connections := (active_connections m)(uid \<mapsto> [w1]),
                  connection_metadata :=
                    (connection_metadata m)(w1 \<mapsto> fresh_metadata uid t1 meta1)\<rparr>, net))"
  using assms
  by (simp add: connect_def broadcast_to_user_def broadcast_with_def Let_def)

lemma connect_second:
  assumes "w1 \<noteq> w2" and "\<not> broken net w1" and "\<not> broken net w2"
      and "active_connections m1 uid = Some [w1]" and "connection_metadata m1 w1 = Some md1"
  shows "connect k t2 w2 uid meta2 (m1, net) =
     Some (Inr (m1\<lparr>active_connections := (active_connections m1)(uid \<mapsto> [w1, w2]),
                  connection_metadata := (connection_metadata m1)
                     (w2 \<mapsto> fresh_metadata uid t2 meta2,
                      w1 \<mapsto> AList.update ''last_activity'' (MTime t2) md1)\<rparr>,
                net\<lparr>delivered := delivered net @ [(w1, established_message uid t2)]\<rparr>))"
  using assms
  by (simp add: connect_def broadcast_to_user_def broadcast_with_def Let_def touch_def)

lemma broadcast_both:
  assumes "active_connections m uid = Some [w1, w2]"
      and "\<not> broken net w1" and "\<not> broken net w2"
  shows "\<exists>st. broadcast_to_user k t uid msg None (m, net) = Some (Inr st)
            \<and> delivered (snd st) = delivered net @ [(w1, msg), (w2, msg)]"
  using assms
  by (simp add: broadcast_to_user_def broadcast_with_def)

lemma broadcast_excluding_first:
  assumes "active_connections m uid = Some [w1, w2]" and "w1 \<noteq> w2"
      and "\<not> broken net w2"
  shows "\<exists>st. broadcast_to_user k t uid msg (Some w1) (m, net) = Some (Inr st)
            \<and> delivered (snd st) = delivered net @ [(w2, msg)]"
  using assms
  by (simp add: broadcast_to_user_def broadcast_with_def)

lemma broadcast_excluding_second:
  assumes "active_connections m uid = Some [w1, w2]" and "w1 \<noteq> w2"
      and "\<not> broken net w1"
  shows "\<exists>st. broadcast_to_user k t uid msg (Some w2) (m, net) = Some (Inr st)
            \<and> delivered (snd st) = delivered net @ [(w1, msg)]"
  using assms
  by (simp add: broadcast_to_user_def broadcast_with_def)

lemma disconnect_first_of_two:
  assumes "active_connections m uid = Some [w1, w2]" and "w1 \<noteq> w2"
      and "\<not> broken net w2"
      and "connection_metadata m w1 = Some md1" and "dict_get md1 ''user_id'' = Some (MInt uid)"
      and "connection_metadata m w2 = Some md2"
  shows "disconnect (Suc k) t w1 (m, net) =
     Some (Inr (m\<lparr>active_connections := (active_connections m)(uid \<mapsto> [w2]),
                  connection_metadata := (connection_metadata m)
                    (w1 := None, w2 \<mapsto> AList.update ''last_activity'' (MTime t) md2)\<rparr>,
                net\<lparr>delivered := delivered net @ [(w2, closed_message (MInt uid) t)]\<rparr>))"
  using assms dict_get_nonempty [OF assms(5)]
  by (simp add: remove_connection_def broadcast_with_def Let_def touch_def)

lemma disconnect_second_of_two:
  assumes "active_connections m uid = Some [w1, w2]" and "w1 \<noteq> w2"
      and "\<not> broken net w1"
      and "connection_metadata m w2 = Some md2" and "dict_get md2 ''user_id'' = Some (MInt uid)"
      and "connection_metadata m w1 = Some md1"
  shows "disconnect (Suc k) t w2 (m, net) =
     Some (Inr (m\<lparr>active_connections := (active_connections m)(uid \<mapsto> [w1]),
                  connection_metadata := (connection_metadata m)
                    (w2 := None, w1 \<mapsto> AList.update ''last_activity'' (MTime t) md1)\<rparr>,
                net\<lparr>delivered := delivered net @ [(w1, closed_message (MInt uid) t)]\<rparr>))"
  using assms dict_get_nonempty [OF assms(5)]
  by (simp add: remove_connection_def broadcast_with_def Let_def touch_def)

lemma disconnect_last:
  assumes "active_connections m uid = Some [w]"
      and "connection_metadata m w = Some md" and "dict_get md ''user_id'' = Some (MInt uid)"
  shows "disconnect (Suc k) t w (m, net) =
     Some (Inr (m\<lparr>active_connections := (active_connections m)(uid := None),
                  connection_metadata := (connection_metadata m)(w := None)\<rparr>, net))"
  using assms dict_get_nonempty [OF assms(3)]
  by (simp add: remove_connection_def Let_def)

text \<open>
  C8. Let a user have no connection, and let two distinct sockets, neither of them broken,
  connect for that user (with metadata that does not carry a \<^verbatim>\<open>user_id\<close> key). Both
  calls return, and the user then has the two connections. \<open>broadcast_to_user\<close> delivers
  a message to both sockets, and with one of them excluded to the other one only. When
  one of the sockets disconnects, the user's connection count is one less and the user's
  entry stays; when the other one disconnects too, the count is zero and the entry is
  gone. Every call returns for every bound on the recursion depth.
\<close>

theorem two_connections_broadcast_and_disconnect:
  assumes "active_connections m uid = None"
      and "w1 \<noteq> w2" and "\<not> broken net w1" and "\<not> broken net w2"
      and "dict_get (metadata_or_empty meta1) ''user_id'' = None"
      and "dict_get (metadata_or_empty meta2) ''user_id'' = None"
  shows "\<exists>st1 st2.
           connect k t1 w1 uid meta1 (m, net) = Some (Inr st1)
         \<and> connect k t2 w2 uid meta2 st1 = Some (Inr st2)
         \<and> active_connections (fst st2) uid = Some [w1, w2]
         \<and> get_user_connection_count (fst st2) uid = 2
         \<and> (\<exists>st. broadcast_to_user k t3 uid msg None st2 = Some (Inr st)
                \<and> delivered (snd st) = delivered (snd st2) @ [(w1, msg), (w2, msg)])
         \<and> (\<exists>st. broadcast_to_user k t3 uid msg (Some w1) st2 = Some (Inr st)
                \<and> delivered (snd st) = delivered (snd st2) @ [(w2, msg)])
         \<and> (\<exists>st. broadcast_to_user k t3 uid msg (Some w2) st2 = Some (Inr st)
                \<and> delivered (snd st) = delivered (snd st2) @ [(w1, msg)])
         \<and> (\<exists>st3 st4.
                disconnect (Suc k) t4 w1 st2 = Some (Inr st3)
              \<and> get_user_connection_count (fst st3) uid = 1
              \<and> active_connections (fst st3) uid = Some [w2]
              \<and> disconnect (Suc k) t5 w2 st3 = Some (Inr st4)
              \<and> get_user_connection_count (fst st4) uid = 0
              \<and> active_connections (fst st4) uid = None)
         \<and> (\<exists>st3 st4.
                disconnect (Suc k) t4 w2 st2 = Some (Inr st3)
              \<and> get_user_connection_count (fst st3) uid = 1
              \<and> active_connections (fst st3) uid = Some [w1]
              \<and> disconnect (Suc k) t5 w1 st3 = Some (Inr st4)
              \<and> get_user_connection_count (fst st4) uid = 0
              \<and> active_connections (fst st4) uid = None)"
proof -
  define md1 where "md1 = fresh_metadata uid t1 meta1"
  define md1' where "md1' = AList.update ''last_activity'' (MTime t2) md1"
  define md2 where "md2 = fresh_metadata uid t2 meta2"
  define m1 where "m1 = m\<lparr>active_connections := (active_connections m)(uid \<mapsto> [w1]),
                          connection_metadata := (connection_metadata m)(w1 \<mapsto> md1)\<rparr>"
  define m2 where "m2 = m1\<lparr>active_connections := (active_connections m1)(uid \<mapsto> [w1, w2]),
                           connection_metadata := (connection_metadata m1)
                             (w2 \<mapsto> md2, w1 \<mapsto> md1')\<rparr>"
  define net2 where "net2 = net\<lparr>delivered := delivered net @ [(w1, established_message uid t2)]\<rparr>"
  have u1: "dict_get md1' ''user_id'' = Some (MInt uid)"
    unfolding md1'_def md1_def
    by (rule touched_user_id) (rule fresh_metadata_user_id [OF assms(5)])
  have u2: "dict_get md2 ''user_id'' = Some (MInt uid)"
    unfolding md2_def by (rule fresh_metadata_user_id [OF assms(6)])
  have c1: "connect k t1 w1 uid meta1 (m, net) = Some (Inr (m1, net))"
    unfolding m1_def md1_def by (rule connect_first [OF assms(1,3)])
  have a1: "active_connections m1 uid = Some [w1]" and e1: "connection_metadata m1 w1 = Some md1"
    by (simp_all add: m1_def)
  have c2: "connect k t2 w2 uid meta2 (m1, net) = Some (Inr (m2, net2))"
    unfolding m2_def net2_def md2_def md1'_def
    by (rule connect_second [OF assms(2,3,4) a1 e1])
  have a2: "active_connections m2 uid = Some [w1, w2]"
    and e21: "connection_metadata m2 w1 = Some md1'"
    and e22: "connection_metadata m2 w2 = Some md2"
    using assms(2) by (simp_all add: m2_def)
  have b1: "\<not> broken net2 w1" and b2: "\<not> broken net2 w2"
    using assms(3,4) by (simp_all add: net2_def)
  have n2: "get_user_connection_count m2 uid = 2"
    by (simp add: get_user_connection_count_def a2)
  note bc = broadcast_both [OF a2 b1 b2, of k t3 msg]
    broadcast_excluding_first [OF a2 assms(2) b2, of k t3 msg]
    broadcast_excluding_second [OF a2 assms(2) b1, of k t3 msg]
  define m3 where "m3 = m2\<lparr>active_connections := (active_connections m2)(uid \<mapsto> [w2]),
       connection_metadata := (connection_metadata m2)
         (w1 := None, w2 \<mapsto> AList.update ''last_activity'' (MTime t4) md2)\<rparr>"
  define net3 where "net3 = net2\<lparr>delivered := delivered net2 @ [(w2, closed_message (MInt uid) t4)]\<rparr>"
  have d1: "disconnect (Suc k) t4 w1 (m2, net2) = Some (Inr (m3, net3))"
    unfolding m3_def net3_def
    by (rule disconnect_first_of_two [OF a2 assms(2) b2 e21 u1 e22])
  have a3: "active_connections m3 uid = Some [w2]"
    and e3: "connection_metadata m3 w2 = Some (AList.update ''last_activity'' (MTime t4) md2)"
    using assms(2) by (simp_all add: m3_def)
  have d2: "disconnect (Suc k) t5 w2 (m3, net3) =
      Some (Inr (m3\<lparr>active_connections := (active_connections m3)(uid := None),
                    connection_metadata := (connection_metadata m3)(w2 := None)\<rparr>, net3))"
    by (rule disconnect_last [OF a3 e3 touched_user_id [OF u2]])
  define m3' where "m3' = m2\<lparr>active_connections := (active_connections m2)(uid \<mapsto> [w1]),
       connection_metadata := (connection_metadata m2)
         (w2 := None, w1 \<mapsto> AList.update ''last_activity'' (MTime t4) md1')\<rparr>"
  define net3' where "net3' = net2\<lparr>delivered := delivered net2 @ [(w1, closed_message (MInt uid) t4)]\<rparr>"
  have d1': "disconnect (Suc k) t4 w2 (m2, net2) = Some (Inr (m3', net3'))"
    unfolding m3'_def net3'_def
    by (rule disconnect_second_of_two [OF a2 assms(2) b1 e22 u2 e21])
  have a3': "active_connections m3' uid = Some [w1]"
    and e3': "connection_metadata m3' w1 = Some (AList.update ''last_activity'' (MTime t4) md1')"
    using assms(2) by (simp_all add: m3'_def)
  have d2': "disconnect (Suc k) t5 w1 (m3', net3') =
      Some (Inr (m3'\<lparr>active_connections := (active_connections m3')(uid := None),
                     connection_metadata := (connection_metadata m3')(w1 := None)\<rparr>, net3'))"
    by (rule disconnect_last [OF a3' e3' touched_user_id [OF u1]])
  have first: "\<exists>st3 st4.
                disconnect (Suc k) t4 w1 (m2, net2) = Some (Inr st3)
              \<and> get_user_connection_count (fst st3) uid = 1
              \<and> active_connections (fst st3) uid = Some [w2]
              \<and> disconnect (Suc k) t5 w2 st3 = Some (Inr st4)
              \<and> get_user_connection_count (fst st4) uid = 0
              \<and> active_connections (fst st4) uid = None"
    using d1 d2 a3 by (simp add: get_user_connection_count_def)
  have second: "\<exists>st3 st4.
                disconnect (Suc k) t4 w2 (m2, net2) = Some (Inr st3)
              \<and> get_user_connection_count (fst st3) uid = 1
              \<and> active_connections (fst st3) uid = Some [w1]
              \<and> disconnect (Suc k) t5 w1 st3 = Some (Inr st4)
              \<and> get_user_connection_count (fst st4) uid = 0
              \<and> active_connections (fst st4) uid = None"
    using d1' d2' a3' by (simp add: get_user_connection_count_def)
  show ?thesis
    apply (rule exI [of _ "(m1, net)"])
    apply (rule exI [of _ "(m2, net2)"])
    using c1 c2 a2 n2 bc first second
    apply simp
    done
qed

theorem two_connections_broadcast_and_disconnect_witness:
  "\<exists>st1 st2.
           connect 0 10 1 7 None (empty_manager, sound_network) = Some (Inr st1)
         \<and> connect 0 11 2 7 (Some [(''email'', MStr ''ann@example.com'')]) st1 = Some (Inr st2)
         \<and> active_connections (fst st2) 7 = Some [1, 2]
         \<and> get_user_connection_count (fst st2) 7 = 2
         \<and> (\<exists>st. broadcast_to_user 0 12 7 [(''type'', MStr ''ping'')] None st2 = Some (Inr st)
                \<and> delivered (snd st) = delivered (snd st2)
                     @ [(1, [(''type'', MStr ''ping'')]), (2, [(''type'', MStr ''ping'')])])
         \<and> (\<exists>st. broadcast_to_user 0 12 7 [(''type'', MStr ''ping'')] (Some 1) st2
                     = Some (Inr st)
                \<and> delivered (snd st) = delivered (snd st2) @ [(2, [(''type'', MStr ''ping'')])])
         \<and> (\<exists>st. broadcast_to_user 0 12 7 [(''type'', MStr ''ping'')] (Some 2) st2
                     = Some (Inr st)
                \<and> delivered (snd st) = delivered (snd st2) @ [(1, [(''type'', MStr ''ping'')])])
         \<and> (\<exists>st3 st4.
                disconnect (Suc 0) 13 1 st2 = Some (Inr st3)
              \<and> get_user_connection_count (fst st3) 7 = 1
              \<and> active_connections (fst st3) 7 = Some [2]
              \<and> disconnect (Suc 0) 14 2 st3 = Some (Inr st4)
              \<and> get_user_connection_count (fst st4) 7 = 0
              \<and> active_connections (fst st4) 7 = None)
         \<and> (\<exists>st3 st4.
                disconnect (Suc 0) 13 2 st2 = Some (Inr st3)
              \<and> get_user_connection_count (fst st3) 7 = 1
              \<and> active_connections (fst st3) 7 = Some [1]
              \<and> disconnect (Suc 0) 14 1 st3 = Some (Inr st4)
              \<and> get_user_connection_count (fst st4) 7 = 0
              \<and> active_connections (fst st4) 7 = None)"
proof -
  have h1: "active_connections empty_manager 7 = None"
    by (simp add: empty_manager_def)
  have h2: "(1::nat) \<noteq> 2" by simp
  have h3: "\<not> broken sound_network 1" and h4: "\<not> broken sound_network 2"
    by (simp_all add: sound_network_def)
  have h5: "dict_get (metadata_or_empty None) ''user_id'' = (None :: mval option)"
    and h6: "dict_get (metadata_or_empty (Some [(''email'', MStr ''ann@example.com'')]))
               ''user_id'' = None"
    by (simp_all add: metadata_or_empty_def dict_get_def)
  show ?thesis
    by (rule two_connections_broadcast_and_disconnect [OF h1 h2 h3 h4 h5 h6])
qed

text \<open>
  Outside the claim: when the socket that remains is broken, the notification of the
  disconnect fails and the remaining socket is disconnected as well, so the count drops by
  two and the entry is removed. This is the one place where the recursion is entered.
\<close>

lemma disconnect_with_broken_peer:
  "\<exists>st. disconnect (Suc (Suc 0)) 13 1
      (\<lparr>active_connections = [7 \<mapsto> [1, 2]],
        connection_metadata = [1 \<mapsto> [(''user_id'', MInt 7)], 2 \<mapsto> [(''user_id'', MInt 7)]]\<rparr>,
       \<lparr>broken = (\<lambda>w. w = 2), delivered = []\<rparr>) = Some (Inr st)
     \<and> active_connections (fst st) 7 = None
     \<and> get_user_connection_count (fst st) 7 = 0
     \<and> delivered (snd st) = []"
  by (simp add: remove_connection_def broadcast_with_def Let_def dict_get_def
      get_user_connection_count_def)

end
